theory Spec2Isabelle
  imports Complex_Main
begin

section \<open>The contradiction-scoring model of the market intelligence publisher\<close>

text \<open>
  The development embeds the scoring code of the repository,
  \<^verbatim>\<open>MarketIntelligenceEngine.calculate_master_divergence_index\<close> of \<^verbatim>\<open>src/publish.py\<close>
  (seven weighted frameworks), the method that the publisher of that file calls.

  Conventions of the embedding.
  \<^item> Python numbers (\<^verbatim>\<open>int\<close> and \<^verbatim>\<open>float\<close>) are real numbers. The pass is embedded twice:
    \<open>calculate_master_divergence_index\<close> computes in exact arithmetic (\<^verbatim>\<open>/\<close> is exact
    division, no rounding), and \<open>calculate_master_divergence_index_fl\<close> takes its arithmetic
    as a parameter, so that it can round as doubles do. The two agree over exact
    arithmetic (\<open>exact_pass\<close>). NaN and the infinities are not modelled.
  \<^item> \<^verbatim>\<open>raw_data\<close> is a dictionary of dictionaries; only its numeric entries are modelled,
    as a map of maps. \<^verbatim>\<open>d.get(k, default)\<close> is a lookup with a default.
  \<^item> The engine's table \<^verbatim>\<open>self.contradiction_frameworks\<close> is built once by \<^verbatim>\<open>__init__\<close>
    with seven fixed keys and is only ever indexed by these literal keys, so it is a
    record with one field per key; \<^verbatim>\<open>.values()\<close> and \<^verbatim>\<open>.items()\<close> list the fields in
    insertion order.
  \<^item> The method mutates the table in place. The model passes the table in and returns
    the table as the call leaves it, together with either the returned dictionary or
    the exception raised.
  \<^item> \<^verbatim>\<open>datetime.now().isoformat()\<close> reads the clock; the reading is the parameter \<open>now\<close>.
\<close>

subsection \<open>Data model of \<^verbatim>\<open>publish.py\<close>\<close>

datatype FrameworkStatus = CRITICAL | WARNING | NORMAL

text \<open>\<^verbatim>\<open>FrameworkStatus.value\<close>: the string carried by each member of the enum.\<close>

fun status_value :: "FrameworkStatus \<Rightarrow> string" where
  "status_value CRITICAL = ''CRITICAL''"
| "status_value WARNING = ''WARNING''"
| "status_value NORMAL = ''NORMAL''"

record ContradictionFramework =
  name :: string
  current_level :: real
  threshold :: real
  weight :: real
  status :: FrameworkStatus
  implication :: string

record contradiction_frameworks =
  global_vs_local :: ContradictionFramework
  economic_assessment :: ContradictionFramework
  credit_vs_fundamentals :: ContradictionFramework
  risk_vs_activity :: ContradictionFramework
  sector_intelligence :: ContradictionFramework
  quantitative_regime :: ContradictionFramework
  us_economic_backdrop :: ContradictionFramework

text \<open>The table that \<^verbatim>\<open>MarketIntelligenceEngine.__init__\<close> builds (publish.py, lines 70-106).\<close>

definition init_frameworks :: contradiction_frameworks where
  "init_frameworks =
    \<lparr> global_vs_local =
        \<lparr> name = ''Global vs Local Sentiment'', current_level = 0.0, threshold = 100.0,
          weight = 0.20, status = NORMAL,
          implication = ''Global-local sentiment divergence creating arbitrage opportunities'' \<rparr>,
      economic_assessment =
        \<lparr> name = ''Economic Assessment vs Reality'', current_level = 0.0, threshold = 50.0,
          weight = 0.15, status = NORMAL,
          implication = ''Economic assessments contradicting actual indicator data'' \<rparr>,
      credit_vs_fundamentals =
        \<lparr> name = ''Credit Markets vs Fundamentals'', current_level = 0.0, threshold = 25.0,
          weight = 0.15, status = NORMAL,
          implication = ''Credit spread calculations showing data integrity issues'' \<rparr>,
      risk_vs_activity =
        \<lparr> name = ''Risk Assessment vs Market Activity'', current_level = 0.0, threshold = 50.0,
          weight = 0.15, status = NORMAL,
          implication = ''Risk models disconnected from actual market behavior'' \<rparr>,
      sector_intelligence =
        \<lparr> name = ''Sector Sentiment Intelligence'', current_level = 0.0, threshold = 20.0,
          weight = 0.10, status = NORMAL,
          implication = ''Major sector sentiment reversals requiring rotation'' \<rparr>,
      quantitative_regime =
        \<lparr> name = ''Quantitative Regime Analysis'', current_level = 0.0, threshold = 75.0,
          weight = 0.15, status = NORMAL,
          implication = ''MRN regime approaching transition thresholds'' \<rparr>,
      us_economic_backdrop =
        \<lparr> name = ''US Economic Backdrop'', current_level = 0.0, threshold = 30.0,
          weight = 0.10, status = NORMAL,
          implication = ''US economic indicators showing mixed signals'' \<rparr> \<rparr>"

text \<open>\<^verbatim>\<open>self.contradiction_frameworks.values()\<close> and \<^verbatim>\<open>.items()\<close>, in insertion order.\<close>

definition values_of :: "contradiction_frameworks \<Rightarrow> ContradictionFramework list" where
  "values_of self =
    [global_vs_local self, economic_assessment self, credit_vs_fundamentals self,
     risk_vs_activity self, sector_intelligence self, quantitative_regime self,
     us_economic_backdrop self]"

definition items :: "contradiction_frameworks \<Rightarrow> (string \<times> ContradictionFramework) list" where
  "items self =
    [(''global_vs_local'', global_vs_local self),
     (''economic_assessment'', economic_assessment self),
     (''credit_vs_fundamentals'', credit_vs_fundamentals self),
     (''risk_vs_activity'', risk_vs_activity self),
     (''sector_intelligence'', sector_intelligence self),
     (''quantitative_regime'', quantitative_regime self),
     (''us_economic_backdrop'', us_economic_backdrop self)]"

text \<open>The only exception the body of the scoring method raises on numeric input.\<close>

datatype py_error = ZeroDivisionError

type_synonym raw_data = "string \<rightharpoonup> (string \<rightharpoonup> real)"

text \<open>\<^verbatim>\<open>raw_data.get(k1, {}).get(k2, default)\<close>\<close>

definition get2 :: "raw_data \<Rightarrow> string \<Rightarrow> string \<Rightarrow> real \<Rightarrow> real" where
  "get2 raw k1 k2 dflt =
    (case raw k1 of
       None \<Rightarrow> dflt
     | Some d \<Rightarrow> (case d k2 of None \<Rightarrow> dflt | Some v \<Rightarrow> v))"

text \<open>The four reads of the snapshot (publish.py, lines 544, 545, 578, 579).\<close>

definition global_sentiment_of :: "raw_data \<Rightarrow> real" where
  "global_sentiment_of raw = get2 raw ''global_sentiment'' ''sentiment_score'' 6.0"

definition local_sentiment_of :: "raw_data \<Rightarrow> real" where
  "local_sentiment_of raw = get2 raw ''market_trend'' ''sentiment_score'' 0.09"

definition mrn_duration_of :: "raw_data \<Rightarrow> real" where
  "mrn_duration_of raw = get2 raw ''nifty_mrn'' ''mi_duration'' 14"

definition max_duration_of :: "raw_data \<Rightarrow> real" where
  "max_duration_of raw = get2 raw ''nifty_mrn'' ''max_duration'' 21"

record FrameworkView =
  fv_level :: real
  fv_threshold :: real
  fv_status :: string
  fv_implication :: string

record Opportunity =
  opp_type :: string
  strategy :: string
  magnitude :: real
  timeline :: string
  confidence :: string

record Summary =
  total_contradictions :: nat
  active_contradictions :: nat
  global_sentiment :: real
  local_sentiment :: real
  divergence_percentage :: real

record AnalysisResult =
  timestamp :: string
  frameworks :: "(string \<times> FrameworkView) list"
  master_divergence_index :: real
  critical_frameworks :: nat
  system_status :: string
  opportunities :: "Opportunity list"
  summary :: Summary

subsection \<open>The scoring pass of \<^verbatim>\<open>publish.py\<close>\<close>

text \<open>
  Framework 1, lines 548-551, in exact arithmetic: the divergence, with the fallback for a
  zero divisor. \<open>divergence_pct_fl\<close> below is the same line over a rounding arithmetic.
\<close>

definition divergence_pct_of :: "real \<Rightarrow> real \<Rightarrow> real" where
  "divergence_pct_of global_score local_score =
    (if local_score \<noteq> 0
     then \<bar>(global_score - local_score) / local_score * 100\<bar>
     else 6000)"

text \<open>
  Lines 553-575: the assignments to frameworks 1 to 5, all made before the division of
  line 580.
\<close>

definition score_frameworks_1_to_5 ::
  "real \<Rightarrow> contradiction_frameworks \<Rightarrow> contradiction_frameworks" where
  "score_frameworks_1_to_5 divergence_pct self =
    (let self1 = self\<lparr>global_vs_local := (global_vs_local self)
                   \<lparr>current_level := divergence_pct,
                    status := (if divergence_pct > 1000 then CRITICAL
                               else if divergence_pct > 100 then WARNING
                               else NORMAL)\<rparr>\<rparr>;
         self2 = self1\<lparr>economic_assessment := (economic_assessment self1)
                   \<lparr>current_level := 75.0, status := CRITICAL\<rparr>\<rparr>;
         self3 = self2\<lparr>credit_vs_fundamentals := (credit_vs_fundamentals self2)
                   \<lparr>current_level := 126.0, status := CRITICAL\<rparr>\<rparr>;
         self4 = self3\<lparr>risk_vs_activity := (risk_vs_activity self3)
                   \<lparr>current_level := 100.0, status := CRITICAL\<rparr>\<rparr>;
         max_decline = 114.3
     in self4\<lparr>sector_intelligence := (sector_intelligence self4)
                   \<lparr>current_level := max_decline, status := CRITICAL\<rparr>\<rparr>)"

text \<open>Lines 582-590: the assignments to frameworks 6 and 7, made after the division.\<close>

definition score_frameworks_6_to_7 ::
  "real \<Rightarrow> contradiction_frameworks \<Rightarrow> contradiction_frameworks" where
  "score_frameworks_6_to_7 duration_pct self =
    (let self6 = self\<lparr>quantitative_regime := (quantitative_regime self)
                   \<lparr>current_level := duration_pct,
                    status := (if duration_pct > 60 then WARNING else NORMAL)\<rparr>\<rparr>
     in self6\<lparr>us_economic_backdrop := (us_economic_backdrop self6)
                   \<lparr>current_level := 50.0, status := WARNING\<rparr>\<rparr>)"

text \<open>
  The loop of lines 593-602 over \<^verbatim>\<open>self.contradiction_frameworks.values()\<close>, with its two
  accumulators \<^verbatim>\<open>total_score\<close> and \<^verbatim>\<open>critical_count\<close>.
\<close>

fun score_loop :: "ContradictionFramework list \<Rightarrow> real \<times> nat \<Rightarrow> real \<times> nat" where
  "score_loop [] acc = acc"
| "score_loop (framework # rest) (total_score, critical_count) =
     score_loop rest
       (if current_level framework > threshold framework
        then total_score + min (current_level framework / 100) 10 * weight framework
        else total_score,
        if status framework = CRITICAL then critical_count + 1 else critical_count)"

text \<open>Lines 604-622: the opportunities, appended in this order.\<close>

definition derive_opportunities :: "real \<Rightarrow> nat \<Rightarrow> real \<Rightarrow> Opportunity list" where
  "derive_opportunities divergence_pct critical_count total_score =
    (if divergence_pct > 1000
     then [\<lparr> opp_type = ''Global-Local Arbitrage'',
             strategy = ''Long international, short local'',
             magnitude = divergence_pct,
             timeline = ''2-8 weeks'',
             confidence = ''Very High'' \<rparr>]
     else [])
    @ (if critical_count \<ge> 2
       then [\<lparr> opp_type = ''Multi-Framework Arbitrage'',
               strategy = ''Position across contradictions'',
               magnitude = total_score * 100,
               timeline = ''1-4 weeks'',
               confidence = ''High'' \<rparr>]
       else [])"

text \<open>The dictionary comprehension of lines 626-631, for one framework.\<close>

definition framework_view :: "ContradictionFramework \<Rightarrow> FrameworkView" where
  "framework_view fw =
    \<lparr> fv_level = current_level fw, fv_threshold = threshold fw,
      fv_status = status_value (status fw), fv_implication = implication fw \<rparr>"

text \<open>
  \<^verbatim>\<open>calculate_master_divergence_index\<close> (publish.py, lines 540-648). The division of
  line 580 raises when \<^verbatim>\<open>max_duration\<close> is zero; the five assignments before it have
  then already been made to the table, the two after it have not. The function
  contains no \<^verbatim>\<open>try\<close> and no test of \<^verbatim>\<open>max_duration\<close>.
\<close>

definition calculate_master_divergence_index ::
  "string \<Rightarrow> contradiction_frameworks \<Rightarrow> raw_data
     \<Rightarrow> (py_error + AnalysisResult) \<times> contradiction_frameworks" where
  "calculate_master_divergence_index now self raw =
    (let global_sentiment = global_sentiment_of raw;
         local_sentiment = local_sentiment_of raw;
         divergence_pct = divergence_pct_of global_sentiment local_sentiment;
         self5 = score_frameworks_1_to_5 divergence_pct self;
         mrn_duration = mrn_duration_of raw;
         max_duration = max_duration_of raw
     in if max_duration = 0 then (Inl ZeroDivisionError, self5)
        else
         (let duration_pct = (mrn_duration / max_duration) * 100;
              self7 = score_frameworks_6_to_7 duration_pct self5;
              acc = score_loop (values_of self7) (0, 0);
              total_score = fst acc;
              critical_count = snd acc;
              opportunities = derive_opportunities divergence_pct critical_count total_score
          in (Inr \<lparr> timestamp = now,
                    frameworks = map (\<lambda>(k, fw). (k, framework_view fw)) (items self7),
                    master_divergence_index = total_score,
                    critical_frameworks = critical_count,
                    system_status =
                      (if critical_count \<ge> 3 then ''CRITICAL''
                       else if critical_count \<ge> 1 then ''WARNING''
                       else ''NORMAL''),
                    opportunities = opportunities,
                    summary =
                      \<lparr> total_contradictions = length (values_of self7),
                        active_contradictions =
                          length (filter (\<lambda>fw. current_level fw > threshold fw) (values_of self7)),
                        global_sentiment = global_sentiment,
                        local_sentiment = local_sentiment,
                        divergence_percentage = divergence_pct \<rparr> \<rparr>,
              self7)))"

text \<open>The level and the status string that a result reports for the framework \<open>k\<close>.\<close>

definition level_status :: "AnalysisResult \<Rightarrow> string \<Rightarrow> (real \<times> string) option" where
  "level_status r k = map_option (\<lambda>fv. (fv_level fv, fv_status fv)) (map_of (frameworks r) k)"

subsection \<open>The scoring pass over a rounding arithmetic\<close>

text \<open>
  Python's \<^verbatim>\<open>float\<close> is the IEEE 754 double: each operation returns its exact result rounded
  to the nearest double, ties to the even significand, and a decimal literal denotes the
  double nearest to it. The record \<open>arith\<close> holds the four rounded operations and the
  reading of a literal, so that the pass can be written once over any arithmetic.
  \<open>exact_arith\<close> is the arithmetic without rounding. \<open>double_arith\<close> rounds with \<open>binary64\<close>, which
  rounds a real number to 53 significant bits, ties to even; it agrees with the double
  arithmetic wherever a result neither overflows nor falls into the subnormal range
  (the exponent range of \<open>binary64\<close> is unbounded). Comparisons, \<^verbatim>\<open>abs\<close> and \<^verbatim>\<open>min\<close> are exact
  on doubles; integer literals such as 100 and 6000 are doubles themselves.
\<close>

record arith =
  fsub :: "real \<Rightarrow> real \<Rightarrow> real"
  fdiv :: "real \<Rightarrow> real \<Rightarrow> real"
  fmul :: "real \<Rightarrow> real \<Rightarrow> real"
  fadd :: "real \<Rightarrow> real \<Rightarrow> real"
  flit :: "real \<Rightarrow> real"

definition exact_arith :: arith where
  "exact_arith = \<lparr> fsub = (-), fdiv = (/), fmul = (*), fadd = (+), flit = (\<lambda>x. x) \<rparr>"

definition round_to_even :: "real \<Rightarrow> int" where
  "round_to_even y =
    (let f = \<lfloor>y\<rfloor>; d = y - of_int f
     in if d < 1 / 2 then f
        else if 1 / 2 < d then f + 1
        else if even f then f else f + 1)"

definition binary64 :: "real \<Rightarrow> real" where
  "binary64 x =
    (if x = 0 then 0
     else (let u = 2 powr (of_int \<lfloor>log 2 \<bar>x\<bar>\<rfloor> - 52)
           in u * of_int (round_to_even (x / u))))"

definition double_arith :: arith where
  "double_arith =
    \<lparr> fsub = (\<lambda>x y. binary64 (x - y)), fdiv = (\<lambda>x y. binary64 (x / y)),
      fmul = (\<lambda>x y. binary64 (x * y)), fadd = (\<lambda>x y. binary64 (x + y)),
      flit = binary64 \<rparr>"

text \<open>
  The pass of lines 540-648 once more, every arithmetic operation taken from \<open>ar\<close>. The
  reads of \<^verbatim>\<open>mi_duration\<close> and \<^verbatim>\<open>max_duration\<close> have integer defaults and are shared with
  the definitions above.
\<close>

definition global_sentiment_fl :: "arith \<Rightarrow> raw_data \<Rightarrow> real" where
  "global_sentiment_fl ar raw = get2 raw ''global_sentiment'' ''sentiment_score'' (flit ar 6.0)"

definition local_sentiment_fl :: "arith \<Rightarrow> raw_data \<Rightarrow> real" where
  "local_sentiment_fl ar raw = get2 raw ''market_trend'' ''sentiment_score'' (flit ar 0.09)"

definition divergence_pct_fl :: "arith \<Rightarrow> real \<Rightarrow> real \<Rightarrow> real" where
  "divergence_pct_fl ar global_score local_score =
    (if local_score \<noteq> 0
     then \<bar>fmul ar (fdiv ar (fsub ar global_score local_score) local_score) 100\<bar>
     else 6000)"

definition score_frameworks_1_to_5_fl ::
  "arith \<Rightarrow> real \<Rightarrow> contradiction_frameworks \<Rightarrow> contradiction_frameworks" where
  "score_frameworks_1_to_5_fl ar divergence_pct self =
    (let self1 = self\<lparr>global_vs_local := (global_vs_local self)
                   \<lparr>current_level := divergence_pct,
                    status := (if divergence_pct > 1000 then CRITICAL
                               else if divergence_pct > 100 then WARNING
                               else NORMAL)\<rparr>\<rparr>;
         self2 = self1\<lparr>economic_assessment := (economic_assessment self1)
                   \<lparr>current_level := flit ar 75.0, status := CRITICAL\<rparr>\<rparr>;
         self3 = self2\<lparr>credit_vs_fundamentals := (credit_vs_fundamentals self2)
                   \<lparr>current_level := flit ar 126.0, status := CRITICAL\<rparr>\<rparr>;
         self4 = self3\<lparr>risk_vs_activity := (risk_vs_activity self3)
                   \<lparr>current_level := flit ar 100.0, status := CRITICAL\<rparr>\<rparr>;
         max_decline = flit ar 114.3
     in self4\<lparr>sector_intelligence := (sector_intelligence self4)
                   \<lparr>current_level := max_decline, status := CRITICAL\<rparr>\<rparr>)"

definition score_frameworks_6_to_7_fl ::
  "arith \<Rightarrow> real \<Rightarrow> contradiction_frameworks \<Rightarrow> contradiction_frameworks" where
  "score_frameworks_6_to_7_fl ar duration_pct self =
    (let self6 = self\<lparr>quantitative_regime := (quantitative_regime self)
                   \<lparr>current_level := duration_pct,
                    status := (if duration_pct > 60 then WARNING else NORMAL)\<rparr>\<rparr>
     in self6\<lparr>us_economic_backdrop := (us_economic_backdrop self6)
                   \<lparr>current_level := flit ar 50.0, status := WARNING\<rparr>\<rparr>)"

fun score_loop_fl ::
  "arith \<Rightarrow> ContradictionFramework list \<Rightarrow> real \<times> nat \<Rightarrow> real \<times> nat" where
  "score_loop_fl ar [] acc = acc"
| "score_loop_fl ar (framework # rest) (total_score, critical_count) =
     score_loop_fl ar rest
       (if current_level framework > threshold framework
        then fadd ar total_score
               (fmul ar (min (fdiv ar (current_level framework) 100) 10) (weight framework))
        else total_score,
        if status framework = CRITICAL then critical_count + 1 else critical_count)"

definition derive_opportunities_fl ::
  "arith \<Rightarrow> real \<Rightarrow> nat \<Rightarrow> real \<Rightarrow> Opportunity list" where
  "derive_opportunities_fl ar divergence_pct critical_count total_score =
    (if divergence_pct > 1000
     then [\<lparr> opp_type = ''Global-Local Arbitrage'',
             strategy = ''Long international, short local'',
             magnitude = divergence_pct,
             timeline = ''2-8 weeks'',
             confidence = ''Very High'' \<rparr>]
     else [])
    @ (if critical_count \<ge> 2
       then [\<lparr> opp_type = ''Multi-Framework Arbitrage'',
               strategy = ''Position across contradictions'',
               magnitude = fmul ar total_score 100,
               timeline = ''1-4 weeks'',
               confidence = ''High'' \<rparr>]
       else [])"

definition calculate_master_divergence_index_fl ::
  "arith \<Rightarrow> string \<Rightarrow> contradiction_frameworks \<Rightarrow> raw_data
     \<Rightarrow> (py_error + AnalysisResult) \<times> contradiction_frameworks" where
  "calculate_master_divergence_index_fl ar now self raw =
    (let global_sentiment = global_sentiment_fl ar raw;
         local_sentiment = local_sentiment_fl ar raw;
         divergence_pct = divergence_pct_fl ar global_sentiment local_sentiment;
         self5 = score_frameworks_1_to_5_fl ar divergence_pct self;
         mrn_duration = mrn_duration_of raw;
         max_duration = max_duration_of raw
     in if max_duration = 0 then (Inl ZeroDivisionError, self5)
        else
         (let duration_pct = fmul ar (fdiv ar mrn_duration max_duration) 100;
              self7 = score_frameworks_6_to_7_fl ar duration_pct self5;
              acc = score_loop_fl ar (values_of self7) (0, 0);
              total_score = fst acc;
              critical_count = snd acc;
              opportunities =
                derive_opportunities_fl ar divergence_pct critical_count total_score
          in (Inr \<lparr> timestamp = now,
                    frameworks = map (\<lambda>(k, fw). (k, framework_view fw)) (items self7),
                    master_divergence_index = total_score,
                    critical_frameworks = critical_count,
                    system_status =
                      (if critical_count \<ge> 3 then ''CRITICAL''
                       else if critical_count \<ge> 1 then ''WARNING''
                       else ''NORMAL''),
                    opportunities = opportunities,
                    summary =
                      \<lparr> total_contradictions = length (values_of self7),
                        active_contradictions =
                          length (filter (\<lambda>fw. current_level fw > threshold fw) (values_of self7)),
                        global_sentiment = global_sentiment,
                        local_sentiment = local_sentiment,
                        divergence_percentage = divergence_pct \<rparr> \<rparr>,
              self7)))"

section \<open>Properties of the scoring pass\<close>

subsection \<open>Auxiliary facts\<close>

lemma score_loop_total:
  "fst (score_loop fws (t, c)) =
     t + (\<Sum>fw\<leftarrow>filter (\<lambda>fw. current_level fw > threshold fw) fws.
            min (current_level fw / 100) 10 * weight fw)"
  by (induction fws arbitrary: t c) simp_all

lemma score_loop_count:
  "snd (score_loop fws (t, c)) = c + length (filter (\<lambda>fw. status fw = CRITICAL) fws)"
  by (induction fws arbitrary: t c) simp_all

lemma frameworks_1_to_5_fields:
  "global_vs_local (score_frameworks_1_to_5 p s) =
     (global_vs_local s)\<lparr>current_level := p,
        status := (if p > 1000 then CRITICAL else if p > 100 then WARNING else NORMAL)\<rparr>"
  "economic_assessment (score_frameworks_1_to_5 p s) =
     (economic_assessment s)\<lparr>current_level := 75.0, status := CRITICAL\<rparr>"
  "credit_vs_fundamentals (score_frameworks_1_to_5 p s) =
     (credit_vs_fundamentals s)\<lparr>current_level := 126.0, status := CRITICAL\<rparr>"
  "risk_vs_activity (score_frameworks_1_to_5 p s) =
     (risk_vs_activity s)\<lparr>current_level := 100.0, status := CRITICAL\<rparr>"
  "sector_intelligence (score_frameworks_1_to_5 p s) =
     (sector_intelligence s)\<lparr>current_level := 114.3, status := CRITICAL\<rparr>"
  "quantitative_regime (score_frameworks_1_to_5 p s) = quantitative_regime s"
  "us_economic_backdrop (score_frameworks_1_to_5 p s) = us_economic_backdrop s"
  by (simp_all add: score_frameworks_1_to_5_def Let_def)

lemma frameworks_6_to_7_fields:
  "global_vs_local (score_frameworks_6_to_7 d s) = global_vs_local s"
  "economic_assessment (score_frameworks_6_to_7 d s) = economic_assessment s"
  "credit_vs_fundamentals (score_frameworks_6_to_7 d s) = credit_vs_fundamentals s"
  "risk_vs_activity (score_frameworks_6_to_7 d s) = risk_vs_activity s"
  "sector_intelligence (score_frameworks_6_to_7 d s) = sector_intelligence s"
  "quantitative_regime (score_frameworks_6_to_7 d s) =
     (quantitative_regime s)\<lparr>current_level := d,
        status := (if d > 60 then WARNING else NORMAL)\<rparr>"
  "us_economic_backdrop (score_frameworks_6_to_7 d s) =
     (us_economic_backdrop s)\<lparr>current_level := 50.0, status := WARNING\<rparr>"
  by (simp_all add: score_frameworks_6_to_7_def Let_def)

text \<open>
  The two outcomes of a call: with a zero \<^verbatim>\<open>max_duration\<close> it raises, otherwise it
  returns the dictionary built from the table as the seven assignments leave it.
\<close>

lemma calc_raises:
  assumes "max_duration_of raw = 0"
  shows "calculate_master_divergence_index now self raw =
    (Inl ZeroDivisionError,
     score_frameworks_1_to_5
       (divergence_pct_of (global_sentiment_of raw) (local_sentiment_of raw)) self)"
  using assms by (simp add: calculate_master_divergence_index_def Let_def)

lemma calc_returns:
  assumes "max_duration_of raw \<noteq> 0"
  shows "\<exists>r self'.
     calculate_master_divergence_index now self raw = (Inr r, self') \<and>
     self' = score_frameworks_6_to_7 (mrn_duration_of raw / max_duration_of raw * 100)
               (score_frameworks_1_to_5
                  (divergence_pct_of (global_sentiment_of raw) (local_sentiment_of raw)) self) \<and>
     timestamp r = now \<and>
     frameworks r = map (\<lambda>(k, fw). (k, framework_view fw)) (items self') \<and>
     master_divergence_index r = fst (score_loop (values_of self') (0, 0)) \<and>
     critical_frameworks r = snd (score_loop (values_of self') (0, 0)) \<and>
     system_status r =
       (if critical_frameworks r \<ge> 3 then ''CRITICAL''
        else if critical_frameworks r \<ge> 1 then ''WARNING'' else ''NORMAL'') \<and>
     opportunities r =
       derive_opportunities (current_level (global_vs_local self'))
         (critical_frameworks r) (master_divergence_index r)"
  using assms
  by (simp add: calculate_master_divergence_index_def Let_def
        frameworks_1_to_5_fields frameworks_6_to_7_fields)

lemma critical_views:
  "length (filter (\<lambda>kv. fv_status (snd kv) = ''CRITICAL'')
             (map (\<lambda>(k, fw). (k, framework_view fw)) (items s)))
   = length (filter (\<lambda>fw. status fw = CRITICAL) (values_of s))"
proof -
  have v: "fv_status (framework_view fw) = ''CRITICAL'' \<longleftrightarrow> status fw = CRITICAL" for fw
    by (cases "status fw") (simp_all add: framework_view_def)
  show ?thesis by (simp add: items_def values_of_def v)
qed

lemma default_snapshot:
  "global_sentiment_of Map.empty = 6" "local_sentiment_of Map.empty = 9 / 100"
  "mrn_duration_of Map.empty = 14" "max_duration_of Map.empty = 21"
  by (simp_all add: global_sentiment_of_def local_sentiment_of_def mrn_duration_of_def
        max_duration_of_def get2_def)

lemma mrn_snapshot:
  "mrn_duration_of [''nifty_mrn'' \<mapsto> [''mi_duration'' \<mapsto> 14, ''max_duration'' \<mapsto> 21]] = 14"
  "max_duration_of [''nifty_mrn'' \<mapsto> [''mi_duration'' \<mapsto> 14, ''max_duration'' \<mapsto> 21]] = 21"
  by (simp_all add: mrn_duration_of_def max_duration_of_def get2_def)

lemma default_pass:
  "\<exists>r s.
     calculate_master_divergence_index now init_frameworks Map.empty = (Inr r, s) \<and>
     values_of s =
       [(global_vs_local init_frameworks)\<lparr>current_level := 19700 / 3, status := CRITICAL\<rparr>,
        (economic_assessment init_frameworks)\<lparr>current_level := 75, status := CRITICAL\<rparr>,
        (credit_vs_fundamentals init_frameworks)\<lparr>current_level := 126, status := CRITICAL\<rparr>,
        (risk_vs_activity init_frameworks)\<lparr>current_level := 100, status := CRITICAL\<rparr>,
        (sector_intelligence init_frameworks)\<lparr>current_level := 1143 / 10, status := CRITICAL\<rparr>,
        (quantitative_regime init_frameworks)\<lparr>current_level := 200 / 3, status := WARNING\<rparr>,
        (us_economic_backdrop init_frameworks)\<lparr>current_level := 50, status := WARNING\<rparr>] \<and>
     master_divergence_index r = 13079 / 5000 \<and>
     critical_frameworks r = 5"
proof -
  have m: "max_duration_of Map.empty \<noteq> 0"
    by (simp add: default_snapshot)
  from calc_returns [OF m, of now init_frameworks] obtain r0 s0 where
    c0: "calculate_master_divergence_index now init_frameworks Map.empty = (Inr r0, s0)"
    and s0: "s0 = score_frameworks_6_to_7
               (mrn_duration_of Map.empty / max_duration_of Map.empty * 100)
               (score_frameworks_1_to_5
                  (divergence_pct_of (global_sentiment_of Map.empty) (local_sentiment_of Map.empty))
                  init_frameworks)"
    and i0: "master_divergence_index r0 = fst (score_loop (values_of s0) (0, 0))"
    and k0: "critical_frameworks r0 = snd (score_loop (values_of s0) (0, 0))"
    by blast
  have d: "divergence_pct_of 6 (9 / 100) = 19700 / 3"
    by (simp add: divergence_pct_of_def)
  have v: "values_of s0 =
     [(global_vs_local init_frameworks)\<lparr>current_level := 19700 / 3, status := CRITICAL\<rparr>,
      (economic_assessment init_frameworks)\<lparr>current_level := 75, status := CRITICAL\<rparr>,
      (credit_vs_fundamentals init_frameworks)\<lparr>current_level := 126, status := CRITICAL\<rparr>,
      (risk_vs_activity init_frameworks)\<lparr>current_level := 100, status := CRITICAL\<rparr>,
      (sector_intelligence init_frameworks)\<lparr>current_level := 1143 / 10, status := CRITICAL\<rparr>,
      (quantitative_regime init_frameworks)\<lparr>current_level := 200 / 3, status := WARNING\<rparr>,
      (us_economic_backdrop init_frameworks)\<lparr>current_level := 50, status := WARNING\<rparr>]"
    by (simp add: s0 d default_snapshot values_of_def frameworks_1_to_5_fields
          frameworks_6_to_7_fields)
  have i: "master_divergence_index r0 = 13079 / 5000"
    by (simp add: i0 v init_frameworks_def)
  have k: "critical_frameworks r0 = 5"
    by (simp add: k0 v)
  from c0 v i k show ?thesis by blast
qed

lemma four_critical:
  assumes "status (economic_assessment s) = CRITICAL"
    and "status (credit_vs_fundamentals s) = CRITICAL"
    and "status (risk_vs_activity s) = CRITICAL"
    and "status (sector_intelligence s) = CRITICAL"
  shows "4 \<le> length (filter (\<lambda>fw. status fw = CRITICAL) (values_of s))"
  using assms by (simp add: values_of_def)

lemma zero_snapshot:
  "max_duration_of [''nifty_mrn'' \<mapsto> [''max_duration'' \<mapsto> 0]] = 0"
  by (simp add: max_duration_of_def get2_def)

lemma rescoring_1_to_5:
  "score_frameworks_1_to_5 p (score_frameworks_1_to_5 p s) = score_frameworks_1_to_5 p s"
  by (simp add: score_frameworks_1_to_5_def Let_def)

lemma rescoring:
  "score_frameworks_6_to_7 d (score_frameworks_1_to_5 p
     (score_frameworks_6_to_7 d (score_frameworks_1_to_5 p s))) =
   score_frameworks_6_to_7 d (score_frameworks_1_to_5 p s)"
  by (simp add: score_frameworks_1_to_5_def score_frameworks_6_to_7_def Let_def)

lemma init_weights: "\<forall>w \<in> set (map weight (values_of init_frameworks)). 0 < w"
  by (simp add: values_of_def init_frameworks_def)

lemma contribution_mono:
  assumes "0 \<le> weight f" and "threshold f < l" and "l \<le> l'"
  shows "fst (score_loop [f\<lparr>current_level := l\<rparr>] (t, c))
       \<le> fst (score_loop [f\<lparr>current_level := l'\<rparr>] (t, c'))"
proof -
  have "min (l / 100) 10 \<le> min (l' / 100) 10"
    using assms(3) by (simp add: min_le_iff_disj)
  then have "min (l / 100) 10 * weight f \<le> min (l' / 100) 10 * weight f"
    using assms(1) by (rule mult_right_mono)
  then show ?thesis using assms(2,3) by simp
qed

lemma score_loop_append:
  "score_loop (xs @ ys) acc = score_loop ys (score_loop xs acc)"
proof (induction xs arbitrary: acc)
  case Nil
  show ?case by simp
next
  case (Cons x xs)
  then show ?case by (cases acc) simp
qed

lemma score_loop_fst_mono:
  "t \<le> t' \<Longrightarrow> fst (score_loop fws (t, c)) \<le> fst (score_loop fws (t', c'))"
  by (simp add: score_loop_total)

lemma score_loop_update_mono:
  assumes "i < length fws" and "0 \<le> weight (fws ! i)"
    and "threshold (fws ! i) < l" and "l \<le> l'"
  shows "fst (score_loop (fws[i := (fws ! i)\<lparr>current_level := l\<rparr>]) acc)
       \<le> fst (score_loop (fws[i := (fws ! i)\<lparr>current_level := l'\<rparr>]) acc)"
proof -
  let ?f = "fws ! i"
  obtain t c where acc: "score_loop (take i fws) acc = (t, c)"
    by (cases "score_loop (take i fws) acc")
  have u: "fws[i := x] = take i fws @ [x] @ drop (Suc i) fws" for x
    using assms(1) by (simp add: upd_conv_take_nth_drop)
  obtain t1 c1 where a1: "score_loop [?f\<lparr>current_level := l\<rparr>] (t, c) = (t1, c1)"
    by (cases "score_loop [?f\<lparr>current_level := l\<rparr>] (t, c)")
  obtain t2 c2 where a2: "score_loop [?f\<lparr>current_level := l'\<rparr>] (t, c) = (t2, c2)"
    by (cases "score_loop [?f\<lparr>current_level := l'\<rparr>] (t, c)")
  have "t1 \<le> t2"
    using contribution_mono [OF assms(2,3,4), of t c c] a1 a2 by simp
  then have "fst (score_loop (drop (Suc i) fws) (t1, c1))
       \<le> fst (score_loop (drop (Suc i) fws) (t2, c2))"
    by (rule score_loop_fst_mono)
  then show ?thesis
    by (simp only: u score_loop_append acc a1 a2)
qed

lemma pass_keeps_weights:
  "map weight (values_of (snd (calculate_master_divergence_index now self raw)))
     = map weight (values_of self)"
proof (cases "max_duration_of raw = 0")
  case True
  then show ?thesis
    by (simp add: calc_raises values_of_def frameworks_1_to_5_fields)
next
  case False
  from calc_returns [OF False, of now self] show ?thesis
    by (auto simp add: values_of_def frameworks_1_to_5_fields frameworks_6_to_7_fields)
qed

text \<open>Over exact arithmetic the pass is the one defined first.\<close>

lemma score_loop_fl_exact: "score_loop_fl exact_arith fws acc = score_loop fws acc"
proof (induction fws arbitrary: acc)
  case Nil
  show ?case by simp
next
  case (Cons fw fws)
  then show ?case by (cases acc) (simp add: exact_arith_def)
qed

lemma exact_parts:
  "global_sentiment_fl exact_arith raw = global_sentiment_of raw"
  "local_sentiment_fl exact_arith raw = local_sentiment_of raw"
  "divergence_pct_fl exact_arith g l = divergence_pct_of g l"
  "score_frameworks_1_to_5_fl exact_arith p s = score_frameworks_1_to_5 p s"
  "score_frameworks_6_to_7_fl exact_arith d s = score_frameworks_6_to_7 d s"
  "derive_opportunities_fl exact_arith p k t = derive_opportunities p k t"
  "fmul exact_arith (fdiv exact_arith a b) 100 = a / b * 100"
  by (simp_all add: global_sentiment_fl_def local_sentiment_fl_def global_sentiment_of_def
        local_sentiment_of_def divergence_pct_fl_def divergence_pct_of_def
        score_frameworks_1_to_5_fl_def score_frameworks_1_to_5_def
        score_frameworks_6_to_7_fl_def score_frameworks_6_to_7_def
        derive_opportunities_fl_def derive_opportunities_def exact_arith_def)

lemma exact_pass:
  "calculate_master_divergence_index_fl exact_arith now self raw
     = calculate_master_divergence_index now self raw"
  unfolding calculate_master_divergence_index_fl_def calculate_master_divergence_index_def
    exact_parts score_loop_fl_exact
  by (rule refl)

text \<open>What the pass over an arithmetic leaves in \<^verbatim>\<open>global_vs_local\<close>, and what it reports.\<close>

lemma global_vs_local_fl:
  "global_vs_local (snd (calculate_master_divergence_index_fl ar now self raw)) =
     (global_vs_local self)
       \<lparr>current_level :=
          divergence_pct_fl ar (global_sentiment_fl ar raw) (local_sentiment_fl ar raw),
        status :=
          (if divergence_pct_fl ar (global_sentiment_fl ar raw) (local_sentiment_fl ar raw) > 1000
           then CRITICAL
           else if divergence_pct_fl ar (global_sentiment_fl ar raw) (local_sentiment_fl ar raw)
                   > 100
           then WARNING else NORMAL)\<rparr>"
  by (simp add: calculate_master_divergence_index_fl_def score_frameworks_1_to_5_fl_def
        score_frameworks_6_to_7_fl_def Let_def)

lemma reported_fl:
  assumes "max_duration_of raw \<noteq> 0"
  shows "\<exists>r. fst (calculate_master_divergence_index_fl ar now self raw) = Inr r \<and>
     frameworks r = map (\<lambda>(k, fw). (k, framework_view fw))
       (items (snd (calculate_master_divergence_index_fl ar now self raw)))"
  using assms by (simp add: calculate_master_divergence_index_fl_def Let_def)

text \<open>
  Rounding to the nearest, ties to even, is symmetric in the sign: \<open>\<bar>x * 100\<bar>\<close> and
  \<open>\<bar>x\<bar> * 100\<close> round to the same double.
\<close>

lemma round_to_even_minus: "round_to_even (- y) = - round_to_even y"
proof (cases "y = of_int \<lfloor>y\<rfloor>")
  case True
  then obtain k :: int where y: "y = of_int k" by blast
  have "round_to_even (of_int k) = k" for k
    by (simp add: round_to_even_def)
  from this [of k] this [of "- k"] show ?thesis
    by (simp add: y)
next
  case False
  let ?f = "\<lfloor>y\<rfloor>"
  have lt: "of_int ?f < y" "y < of_int ?f + 1"
    using False by linarith+
  have fl: "\<lfloor>- y\<rfloor> = - ?f - 1"
  proof (rule floor_unique)
    have "- real_of_int ?f - 1 \<le> - y" by linarith
    then show "of_int (- ?f - 1) \<le> - y" by simp
    have "- y < - real_of_int ?f" using lt(1) by linarith
    then show "- y < of_int (- ?f - 1) + 1" by simp
  qed
  show ?thesis
    using lt by (auto simp add: round_to_even_def fl Let_def)
qed

lemma round_to_even_nonneg: "0 \<le> y \<Longrightarrow> 0 \<le> round_to_even y"
  by (auto simp add: round_to_even_def Let_def)

lemma binary64_minus: "binary64 (- x) = - binary64 x"
  by (simp add: binary64_def Let_def round_to_even_minus)

lemma binary64_nonneg: "0 \<le> x \<Longrightarrow> 0 \<le> binary64 x"
  by (simp add: binary64_def Let_def round_to_even_nonneg)

lemma binary64_abs: "\<bar>binary64 x\<bar> = binary64 \<bar>x\<bar>"
proof (cases "0 \<le> x")
  case True
  then show ?thesis by (simp add: binary64_nonneg)
next
  case False
  then have "0 \<le> - x" by simp
  then have "0 \<le> binary64 (- x)" by (rule binary64_nonneg)
  then show ?thesis using False by (simp add: binary64_minus)
qed

lemma double_arith_scaling: "\<bar>fmul double_arith x 100\<bar> = fmul double_arith \<bar>x\<bar> 100"
  by (simp add: double_arith_def binary64_abs abs_mult)

text \<open>
  Evaluating \<open>binary64\<close>: the exponent is fixed by two bounds. The three lemmas after it
  run line 549 on the doubles nearest to 0.33 and 0.03.
\<close>

lemma binary64_at:
  assumes "2 powr of_int e \<le> \<bar>x\<bar>" and "\<bar>x\<bar> < 2 powr (of_int e + 1)"
    and "round_to_even (x / 2 powr (of_int e - 52)) = m"
  shows "binary64 x = 2 powr (of_int e - 52) * of_int m"
proof -
  have pos: "0 < \<bar>x\<bar>"
    using assms(1) powr_gt_zero [of 2 "of_int e"] by linarith
  have "of_int e \<le> log 2 \<bar>x\<bar>"
    using assms(1) pos by (simp add: le_log_iff)
  moreover have "log 2 \<bar>x\<bar> < of_int e + 1"
    using assms(2) pos by (simp add: log_less_iff)
  ultimately have "\<lfloor>log 2 \<bar>x\<bar>\<rfloor> = e"
    by (intro floor_unique) simp_all
  moreover have "x \<noteq> 0" using pos by auto
  ultimately show ?thesis
    using assms(3) by (simp add: binary64_def Let_def)
qed

lemma sub_033_003:
  "binary64 (5944751508129055 / 18014398509481984 - 1080863910568919 / 36028797018963968)
     = 1351079888211149 / 4503599627370496"
proof -
  let ?x = "5944751508129055 / 18014398509481984 - 1080863910568919 / 36028797018963968 :: real"
  have x: "?x = 10808639105689191 / 36028797018963968" by simp
  have r: "round_to_even (?x / 2 powr (of_int (- 2) - 52)) = 5404319552844596"
    by (simp add: x round_to_even_def Let_def powr_neg_numeral)
  have "binary64 ?x = 2 powr (of_int (- 2) - 52) * of_int 5404319552844596"
    by (rule binary64_at [OF _ _ r]) (simp_all add: x powr_neg_numeral)
  then show ?thesis by (simp add: powr_neg_numeral)
qed

lemma div_033_003:
  "binary64 ((1351079888211149 / 4503599627370496) / (1080863910568919 / 36028797018963968))
     = 5629499534213121 / 562949953421312"
proof -
  let ?x = "(1351079888211149 / 4503599627370496) / (1080863910568919 / 36028797018963968) :: real"
  have x: "?x = 10808639105689192 / 1080863910568919" by simp
  have r: "round_to_even (?x / 2 powr (of_int 3 - 52)) = 5629499534213121"
    by (simp add: x round_to_even_def Let_def powr_neg_numeral)
  have "binary64 ?x = 2 powr (of_int 3 - 52) * of_int 5629499534213121"
    by (rule binary64_at [OF _ _ r]) (simp_all add: x powr_neg_numeral)
  then show ?thesis by (simp add: powr_neg_numeral)
qed

lemma mul_033_003:
  "binary64 (5629499534213121 / 562949953421312 * 100)
     = 4398046511104001 / 4398046511104"
proof -
  let ?x = "5629499534213121 / 562949953421312 * 100 :: real"
  have x: "?x = 140737488355328025 / 140737488355328" by simp
  have r: "round_to_even (?x / 2 powr (of_int 9 - 52)) = 8796093022208002"
    by (simp add: x round_to_even_def Let_def powr_neg_numeral)
  have "binary64 ?x = 2 powr (of_int 9 - 52) * of_int 8796093022208002"
    by (rule binary64_at [OF _ _ r]) (simp_all add: x powr_neg_numeral)
  then show ?thesis by (simp add: powr_neg_numeral)
qed

lemma level_033_003:
  "fmul double_arith
     \<bar>fdiv double_arith
        (fsub double_arith (5944751508129055 / 18014398509481984)
           (1080863910568919 / 36028797018963968))
        (1080863910568919 / 36028797018963968)\<bar> 100
   = 4398046511104001 / 4398046511104"
proof -
  have a: "fsub double_arith (5944751508129055 / 18014398509481984)
             (1080863910568919 / 36028797018963968)
           = 1351079888211149 / 4503599627370496"
    by (simp only: double_arith_def arith.select_convs sub_033_003)
  have b: "fdiv double_arith (1351079888211149 / 4503599627370496)
             (1080863910568919 / 36028797018963968)
           = 5629499534213121 / 562949953421312"
    by (simp only: double_arith_def arith.select_convs div_033_003)
  have p: "\<bar>5629499534213121 / 562949953421312 :: real\<bar> = 5629499534213121 / 562949953421312"
    by simp
  have c: "fmul double_arith (5629499534213121 / 562949953421312) 100
           = 4398046511104001 / 4398046511104"
    by (simp only: double_arith_def arith.select_convs mul_033_003)
  show ?thesis
    by (simp only: a b p c)
qed

subsection \<open>Framework 1: global against local sentiment\<close>

text \<open>
  The statement over any arithmetic in which scaling by 100 commutes with the absolute
  value; exact arithmetic and \<open>double_arith\<close> are two of them.
\<close>

lemma global_vs_local_over:
  assumes "\<forall>x. \<bar>fmul ar x 100\<bar> = fmul ar \<bar>x\<bar> 100"
  shows "\<exists>self'.
     snd (calculate_master_divergence_index_fl ar now self raw) = self' \<and>
     current_level (global_vs_local self') =
       (if local_sentiment_fl ar raw \<noteq> 0
        then fmul ar
               \<bar>fdiv ar (fsub ar (global_sentiment_fl ar raw) (local_sentiment_fl ar raw))
                  (local_sentiment_fl ar raw)\<bar> 100
        else 6000) \<and>
     status (global_vs_local self') =
       (if current_level (global_vs_local self') > 1000 then CRITICAL
        else if current_level (global_vs_local self') > 100 then WARNING else NORMAL) \<and>
     (max_duration_of raw \<noteq> 0 \<longrightarrow>
        (\<exists>r. fst (calculate_master_divergence_index_fl ar now self raw) = Inr r \<and>
           level_status r ''global_vs_local'' =
             Some (current_level (global_vs_local self'),
                   status_value (status (global_vs_local self')))))"
proof -
  let ?self' = "snd (calculate_master_divergence_index_fl ar now self raw)"
  let ?g = "global_sentiment_fl ar raw" and ?l = "local_sentiment_fl ar raw"
  have p: "divergence_pct_fl ar ?g ?l =
      (if ?l \<noteq> 0 then fmul ar \<bar>fdiv ar (fsub ar ?g ?l) ?l\<bar> 100 else 6000)"
    using assms by (simp add: divergence_pct_fl_def)
  have l: "current_level (global_vs_local ?self') = divergence_pct_fl ar ?g ?l"
    by (simp add: global_vs_local_fl)
  have st: "status (global_vs_local ?self') =
       (if current_level (global_vs_local ?self') > 1000 then CRITICAL
        else if current_level (global_vs_local ?self') > 100 then WARNING else NORMAL)"
    by (simp add: global_vs_local_fl)
  have rep: "max_duration_of raw \<noteq> 0 \<longrightarrow>
        (\<exists>r. fst (calculate_master_divergence_index_fl ar now self raw) = Inr r \<and>
           level_status r ''global_vs_local'' =
             Some (current_level (global_vs_local ?self'),
                   status_value (status (global_vs_local ?self'))))"
  proof
    assume nz: "max_duration_of raw \<noteq> 0"
    from reported_fl [OF nz, of ar now self] obtain r where
      r: "fst (calculate_master_divergence_index_fl ar now self raw) = Inr r"
      and f: "frameworks r = map (\<lambda>(k, fw). (k, framework_view fw)) (items ?self')"
      by blast
    have "level_status r ''global_vs_local'' =
             Some (current_level (global_vs_local ?self'),
                   status_value (status (global_vs_local ?self')))"
      by (simp add: level_status_def f items_def framework_view_def)
    with r show "\<exists>r. fst (calculate_master_divergence_index_fl ar now self raw) = Inr r \<and>
           level_status r ''global_vs_local'' =
             Some (current_level (global_vs_local ?self'),
                   status_value (status (global_vs_local ?self')))"
      by blast
  qed
  from l p st rep show ?thesis by simp
qed

lemma exact_arith_scaling: "\<bar>fmul exact_arith x 100\<bar> = fmul exact_arith \<bar>x\<bar> 100"
  by (simp add: exact_arith_def abs_mult)

text \<open>
  Claim C2, over the double arithmetic of the code. After a call on any snapshot, the level
  of \<^verbatim>\<open>global_vs_local\<close> is \<open>\<bar>(global - local) / local\<bar> * 100\<close>, each operation rounded as
  Python rounds it, when the local sentiment is not zero, and 6000 when it is zero,
  whatever the global sentiment; its status is CRITICAL if the level is above 1000,
  WARNING if it is above 100 and NORMAL otherwise. Whenever the pass returns, the result
  reports that level and that status. The witness runs the pass on the doubles nearest to
  0.33 and 0.03: the level is \<open>4398046511104001 / 4398046511104 = 1000.0000000000002...\<close>,
  above 1000, and the status is CRITICAL (in exact arithmetic 0.33 and 0.03 give exactly
  1000, which is not above 1000).
\<close>

theorem global_vs_local_level_status:
  "\<exists>self'.
     snd (calculate_master_divergence_index_fl double_arith now self raw) = self' \<and>
     current_level (global_vs_local self') =
       (if local_sentiment_fl double_arith raw \<noteq> 0
        then fmul double_arith
               \<bar>fdiv double_arith
                  (fsub double_arith (global_sentiment_fl double_arith raw)
                     (local_sentiment_fl double_arith raw))
                  (local_sentiment_fl double_arith raw)\<bar> 100
        else 6000) \<and>
     status (global_vs_local self') =
       (if current_level (global_vs_local self') > 1000 then CRITICAL
        else if current_level (global_vs_local self') > 100 then WARNING else NORMAL) \<and>
     (max_duration_of raw \<noteq> 0 \<longrightarrow>
        (\<exists>r. fst (calculate_master_divergence_index_fl double_arith now self raw) = Inr r \<and>
           level_status r ''global_vs_local'' =
             Some (current_level (global_vs_local self'),
                   status_value (status (global_vs_local self')))))"
proof -
  have "\<forall>x. \<bar>fmul double_arith x 100\<bar> = fmul double_arith \<bar>x\<bar> 100"
    by (simp add: double_arith_scaling)
  then show ?thesis by (rule global_vs_local_over)
qed

theorem global_vs_local_level_status_witness:
  "max_duration_of
     [''global_sentiment'' \<mapsto> [''sentiment_score'' \<mapsto> 5944751508129055 / 18014398509481984],
      ''market_trend'' \<mapsto> [''sentiment_score'' \<mapsto> 1080863910568919 / 36028797018963968]] \<noteq> 0 \<and>
   current_level (global_vs_local (snd
     (calculate_master_divergence_index_fl double_arith ''2025-06-13T17:30:00'' init_frameworks
        [''global_sentiment'' \<mapsto> [''sentiment_score'' \<mapsto> 5944751508129055 / 18014398509481984],
         ''market_trend'' \<mapsto> [''sentiment_score'' \<mapsto> 1080863910568919 / 36028797018963968]])))
     = 4398046511104001 / 4398046511104 \<and>
   status (global_vs_local (snd
     (calculate_master_divergence_index_fl double_arith ''2025-06-13T17:30:00'' init_frameworks
        [''global_sentiment'' \<mapsto> [''sentiment_score'' \<mapsto> 5944751508129055 / 18014398509481984],
         ''market_trend'' \<mapsto> [''sentiment_score'' \<mapsto> 1080863910568919 / 36028797018963968]])))
     = CRITICAL \<and>
   (\<exists>r. fst
     (calculate_master_divergence_index_fl double_arith ''2025-06-13T17:30:00'' init_frameworks
        [''global_sentiment'' \<mapsto> [''sentiment_score'' \<mapsto> 5944751508129055 / 18014398509481984],
         ''market_trend'' \<mapsto> [''sentiment_score'' \<mapsto> 1080863910568919 / 36028797018963968]])
       = Inr r \<and>
      level_status r ''global_vs_local''
        = Some (4398046511104001 / 4398046511104, ''CRITICAL''))"
proof -
  let ?raw = "[''global_sentiment'' \<mapsto> [''sentiment_score'' \<mapsto> 5944751508129055 / 18014398509481984],
      ''market_trend'' \<mapsto> [''sentiment_score'' \<mapsto> 1080863910568919 / 36028797018963968]]
      :: raw_data"
  have m: "max_duration_of ?raw \<noteq> 0"
    by (simp add: max_duration_of_def get2_def)
  have g: "global_sentiment_fl double_arith ?raw = 5944751508129055 / 18014398509481984"
    by (simp add: global_sentiment_fl_def get2_def)
  have l: "local_sentiment_fl double_arith ?raw = 1080863910568919 / 36028797018963968"
    by (simp add: local_sentiment_fl_def get2_def)
  have nz: "(1080863910568919 / 36028797018963968 :: real) \<noteq> 0"
    by simp
  have big: "(1000 :: real) < 4398046511104001 / 4398046511104"
    by simp
  from global_vs_local_level_status [of "''2025-06-13T17:30:00''" init_frameworks ?raw]
  obtain self' where
    s: "snd (calculate_master_divergence_index_fl double_arith ''2025-06-13T17:30:00''
              init_frameworks ?raw) = self'"
    and lv: "current_level (global_vs_local self') = 4398046511104001 / 4398046511104"
    and st: "status (global_vs_local self') =
       (if current_level (global_vs_local self') > 1000 then CRITICAL
        else if current_level (global_vs_local self') > 100 then WARNING else NORMAL)"
    and rp: "\<exists>r. fst (calculate_master_divergence_index_fl double_arith ''2025-06-13T17:30:00''
                        init_frameworks ?raw) = Inr r \<and>
           level_status r ''global_vs_local'' =
             Some (current_level (global_vs_local self'),
                   status_value (status (global_vs_local self')))"
    unfolding g l level_033_003 using nz m by auto
  have sc: "status (global_vs_local self') = CRITICAL"
    using st big by (simp only: lv if_True)
  from m s lv sc rp show ?thesis
    by (simp only: lv sc status_value.simps) blast
qed

subsection \<open>Framework 6: the MRN regime\<close>

text \<open>
  Claim C7. For every snapshot with \<^verbatim>\<open>max_duration > 0\<close> the pass returns, the level
  reported for \<^verbatim>\<open>quantitative_regime\<close> is \<open>(mi_duration / max_duration) * 100\<close>, and its status
  is WARNING when that level is above 60 and NORMAL otherwise. For a duration of 14 out
  of 21 the level is \<open>200 / 3 = 66.666...\<close> and the status is WARNING.
\<close>

theorem quantitative_regime_level_status:
  assumes "0 < max_duration_of raw"
  shows "\<exists>r self' fv.
     calculate_master_divergence_index now self raw = (Inr r, self') \<and>
     map_of (frameworks r) ''quantitative_regime'' = Some fv \<and>
     fv_level fv = (mrn_duration_of raw / max_duration_of raw) * 100 \<and>
     fv_status fv = (if fv_level fv > 60 then ''WARNING'' else ''NORMAL'') \<and>
     current_level (quantitative_regime self') = fv_level fv \<and>
     status_value (status (quantitative_regime self')) = fv_status fv \<and>
     (mrn_duration_of raw = 14 \<and> max_duration_of raw = 21 \<longrightarrow>
        fv_level fv = 200 / 3 \<and> 66.666 < fv_level fv \<and> fv_level fv < 66.667 \<and>
        fv_status fv = ''WARNING'')"
proof -
  from assms have nz: "max_duration_of raw \<noteq> 0" by simp
  from calc_returns [OF nz, of now self] obtain r self' where
    c: "calculate_master_divergence_index now self raw = (Inr r, self')"
    and s: "self' = score_frameworks_6_to_7 (mrn_duration_of raw / max_duration_of raw * 100)
               (score_frameworks_1_to_5
                  (divergence_pct_of (global_sentiment_of raw) (local_sentiment_of raw)) self)"
    and f: "frameworks r = map (\<lambda>(k, fw). (k, framework_view fw)) (items self')"
    by blast
  let ?fv = "framework_view (quantitative_regime self')"
  have m: "map_of (frameworks r) ''quantitative_regime'' = Some ?fv"
    by (simp add: f items_def)
  have l: "current_level (quantitative_regime self') =
      mrn_duration_of raw / max_duration_of raw * 100"
    by (simp add: s frameworks_6_to_7_fields)
  have st: "status (quantitative_regime self') =
      (if current_level (quantitative_regime self') > 60 then WARNING else NORMAL)"
    by (simp add: s frameworks_6_to_7_fields)
  have lv: "fv_level ?fv = mrn_duration_of raw / max_duration_of raw * 100"
    using l by (simp add: framework_view_def)
  have sv: "fv_status ?fv = (if fv_level ?fv > 60 then ''WARNING'' else ''NORMAL'')"
    using st by (simp add: framework_view_def)
  have e: "current_level (quantitative_regime self') = fv_level ?fv"
    "status_value (status (quantitative_regime self')) = fv_status ?fv"
    by (simp_all add: framework_view_def)
  have p: "mrn_duration_of raw = 14 \<and> max_duration_of raw = 21 \<longrightarrow>
        fv_level ?fv = 200 / 3 \<and> 66.666 < fv_level ?fv \<and> fv_level ?fv < 66.667 \<and>
        fv_status ?fv = ''WARNING''"
  proof
    assume a: "mrn_duration_of raw = 14 \<and> max_duration_of raw = 21"
    then have v: "fv_level ?fv = 200 / 3" using lv by simp
    then show "fv_level ?fv = 200 / 3 \<and> 66.666 < fv_level ?fv \<and> fv_level ?fv < 66.667 \<and>
        fv_status ?fv = ''WARNING''"
      using sv by simp
  qed
  from c m lv sv e p show ?thesis by blast
qed

theorem quantitative_regime_level_status_witness:
  "0 < max_duration_of [''nifty_mrn'' \<mapsto> [''mi_duration'' \<mapsto> 14, ''max_duration'' \<mapsto> 21]] \<and>
   mrn_duration_of [''nifty_mrn'' \<mapsto> [''mi_duration'' \<mapsto> 14, ''max_duration'' \<mapsto> 21]] = 14 \<and>
   max_duration_of [''nifty_mrn'' \<mapsto> [''mi_duration'' \<mapsto> 14, ''max_duration'' \<mapsto> 21]] = 21 \<and>
   (\<exists>r self' fv.
     calculate_master_divergence_index ''2025-06-13T17:30:00'' init_frameworks
       [''nifty_mrn'' \<mapsto> [''mi_duration'' \<mapsto> 14, ''max_duration'' \<mapsto> 21]] = (Inr r, self') \<and>
     map_of (frameworks r) ''quantitative_regime'' = Some fv \<and>
     fv_level fv = 200 / 3 \<and> fv_status fv = ''WARNING'')"
proof -
  let ?raw = "[''nifty_mrn'' \<mapsto> [''mi_duration'' \<mapsto> 14, ''max_duration'' \<mapsto> 21]] :: raw_data"
  have m: "0 < max_duration_of ?raw"
    by (simp add: mrn_snapshot)
  from quantitative_regime_level_status [OF m, of "''2025-06-13T17:30:00''" init_frameworks]
  show ?thesis using m by (auto simp add: mrn_snapshot)
qed

subsection \<open>The five constant frameworks\<close>

text \<open>
  Claim C6 says that the five constant frameworks have their levels and statuses for
  every input snapshot, whatever its fields. The assignment to \<^verbatim>\<open>us_economic_backdrop\<close>
  (lines 589-590) comes after the division of line 580: on the freshly constructed
  engine, with \<^verbatim>\<open>max_duration = 0\<close>, the call raises, and \<^verbatim>\<open>us_economic_backdrop\<close> is left
  with level 0 and status NORMAL, not 50.0 and WARNING.
\<close>

theorem us_economic_backdrop_counterexample:
  "fst (calculate_master_divergence_index ''2025-06-13T17:30:00'' init_frameworks
          [''nifty_mrn'' \<mapsto> [''max_duration'' \<mapsto> 0]]) = Inl ZeroDivisionError \<and>
   current_level (us_economic_backdrop
     (snd (calculate_master_divergence_index ''2025-06-13T17:30:00'' init_frameworks
          [''nifty_mrn'' \<mapsto> [''max_duration'' \<mapsto> 0]]))) = 0 \<and>
   status (us_economic_backdrop
     (snd (calculate_master_divergence_index ''2025-06-13T17:30:00'' init_frameworks
          [''nifty_mrn'' \<mapsto> [''max_duration'' \<mapsto> 0]]))) = NORMAL"
proof -
  note r = calc_raises [OF zero_snapshot, of "''2025-06-13T17:30:00''" init_frameworks]
  have u: "us_economic_backdrop init_frameworks =
      \<lparr> name = ''US Economic Backdrop'', current_level = 0.0, threshold = 30.0,
        weight = 0.10, status = NORMAL,
        implication = ''US economic indicators showing mixed signals'' \<rparr>"
    by (simp add: init_frameworks_def)
  show ?thesis
    by (simp add: r frameworks_1_to_5_fields u)
qed

text \<open>
  Claim C6, as the code has it. For every snapshot with \<^verbatim>\<open>max_duration\<close> different from 0
  the pass returns, and \<^verbatim>\<open>economic_assessment\<close>, \<^verbatim>\<open>credit_vs_fundamentals\<close>,
  \<^verbatim>\<open>risk_vs_activity\<close> and \<^verbatim>\<open>sector_intelligence\<close> have the levels 75.0, 126.0, 100.0 and
  114.3 with status CRITICAL, and \<^verbatim>\<open>us_economic_backdrop\<close> has level 50.0 with status
  WARNING, in the result and in the engine's table; the right-hand sides mention neither
  the snapshot, nor the table the call started from, nor the clock. With \<^verbatim>\<open>max_duration\<close>
  equal to 0 the pass raises and returns nothing; the four CRITICAL frameworks have been
  set in the engine's table as above, and \<^verbatim>\<open>us_economic_backdrop\<close> is left as it was.
\<close>

theorem constant_frameworks:
  "(max_duration_of raw \<noteq> 0 \<longrightarrow>
     (\<exists>r self'.
       calculate_master_divergence_index now self raw = (Inr r, self') \<and>
       level_status r ''economic_assessment'' = Some (75.0, ''CRITICAL'') \<and>
       level_status r ''credit_vs_fundamentals'' = Some (126.0, ''CRITICAL'') \<and>
       level_status r ''risk_vs_activity'' = Some (100.0, ''CRITICAL'') \<and>
       level_status r ''sector_intelligence'' = Some (114.3, ''CRITICAL'') \<and>
       level_status r ''us_economic_backdrop'' = Some (50.0, ''WARNING'') \<and>
       (current_level (economic_assessment self'), status (economic_assessment self'))
         = (75.0, CRITICAL) \<and>
       (current_level (credit_vs_fundamentals self'), status (credit_vs_fundamentals self'))
         = (126.0, CRITICAL) \<and>
       (current_level (risk_vs_activity self'), status (risk_vs_activity self'))
         = (100.0, CRITICAL) \<and>
       (current_level (sector_intelligence self'), status (sector_intelligence self'))
         = (114.3, CRITICAL) \<and>
       (current_level (us_economic_backdrop self'), status (us_economic_backdrop self'))
         = (50.0, WARNING))) \<and>
   (max_duration_of raw = 0 \<longrightarrow>
     (\<exists>self'.
       calculate_master_divergence_index now self raw = (Inl ZeroDivisionError, self') \<and>
       (current_level (economic_assessment self'), status (economic_assessment self'))
         = (75.0, CRITICAL) \<and>
       (current_level (credit_vs_fundamentals self'), status (credit_vs_fundamentals self'))
         = (126.0, CRITICAL) \<and>
       (current_level (risk_vs_activity self'), status (risk_vs_activity self'))
         = (100.0, CRITICAL) \<and>
       (current_level (sector_intelligence self'), status (sector_intelligence self'))
         = (114.3, CRITICAL) \<and>
       us_economic_backdrop self' = us_economic_backdrop self))"
proof (intro conjI impI)
  assume nz: "max_duration_of raw \<noteq> 0"
  from calc_returns [OF nz, of now self] obtain r self' where
    c: "calculate_master_divergence_index now self raw = (Inr r, self')"
    and s: "self' = score_frameworks_6_to_7 (mrn_duration_of raw / max_duration_of raw * 100)
               (score_frameworks_1_to_5
                  (divergence_pct_of (global_sentiment_of raw) (local_sentiment_of raw)) self)"
    and f: "frameworks r = map (\<lambda>(k, fw). (k, framework_view fw)) (items self')"
    by blast
  have t: "(current_level (economic_assessment self'), status (economic_assessment self'))
       = (75.0, CRITICAL)"
    "(current_level (credit_vs_fundamentals self'), status (credit_vs_fundamentals self'))
       = (126.0, CRITICAL)"
    "(current_level (risk_vs_activity self'), status (risk_vs_activity self'))
       = (100.0, CRITICAL)"
    "(current_level (sector_intelligence self'), status (sector_intelligence self'))
       = (114.3, CRITICAL)"
    "(current_level (us_economic_backdrop self'), status (us_economic_backdrop self'))
       = (50.0, WARNING)"
    by (simp_all add: s frameworks_1_to_5_fields frameworks_6_to_7_fields)
  have v: "level_status r ''economic_assessment'' = Some (75.0, ''CRITICAL'')"
    "level_status r ''credit_vs_fundamentals'' = Some (126.0, ''CRITICAL'')"
    "level_status r ''risk_vs_activity'' = Some (100.0, ''CRITICAL'')"
    "level_status r ''sector_intelligence'' = Some (114.3, ''CRITICAL'')"
    "level_status r ''us_economic_backdrop'' = Some (50.0, ''WARNING'')"
    using t by (simp_all add: level_status_def f items_def framework_view_def)
  from c t v show "\<exists>r self'.
       calculate_master_divergence_index now self raw = (Inr r, self') \<and>
       level_status r ''economic_assessment'' = Some (75.0, ''CRITICAL'') \<and>
       level_status r ''credit_vs_fundamentals'' = Some (126.0, ''CRITICAL'') \<and>
       level_status r ''risk_vs_activity'' = Some (100.0, ''CRITICAL'') \<and>
       level_status r ''sector_intelligence'' = Some (114.3, ''CRITICAL'') \<and>
       level_status r ''us_economic_backdrop'' = Some (50.0, ''WARNING'') \<and>
       (current_level (economic_assessment self'), status (economic_assessment self'))
         = (75.0, CRITICAL) \<and>
       (current_level (credit_vs_fundamentals self'), status (credit_vs_fundamentals self'))
         = (126.0, CRITICAL) \<and>
       (current_level (risk_vs_activity self'), status (risk_vs_activity self'))
         = (100.0, CRITICAL) \<and>
       (current_level (sector_intelligence self'), status (sector_intelligence self'))
         = (114.3, CRITICAL) \<and>
       (current_level (us_economic_backdrop self'), status (us_economic_backdrop self'))
         = (50.0, WARNING)"
    by blast
next
  assume z: "max_duration_of raw = 0"
  let ?s = "score_frameworks_1_to_5
       (divergence_pct_of (global_sentiment_of raw) (local_sentiment_of raw)) self"
  have c: "calculate_master_divergence_index now self raw = (Inl ZeroDivisionError, ?s)"
    by (rule calc_raises [OF z])
  have t: "(current_level (economic_assessment ?s), status (economic_assessment ?s))
       = (75.0, CRITICAL)"
    "(current_level (credit_vs_fundamentals ?s), status (credit_vs_fundamentals ?s))
       = (126.0, CRITICAL)"
    "(current_level (risk_vs_activity ?s), status (risk_vs_activity ?s))
       = (100.0, CRITICAL)"
    "(current_level (sector_intelligence ?s), status (sector_intelligence ?s))
       = (114.3, CRITICAL)"
    "us_economic_backdrop ?s = us_economic_backdrop self"
    by (simp_all add: frameworks_1_to_5_fields)
  from c t show "\<exists>self'.
       calculate_master_divergence_index now self raw = (Inl ZeroDivisionError, self') \<and>
       (current_level (economic_assessment self'), status (economic_assessment self'))
         = (75.0, CRITICAL) \<and>
       (current_level (credit_vs_fundamentals self'), status (credit_vs_fundamentals self'))
         = (126.0, CRITICAL) \<and>
       (current_level (risk_vs_activity self'), status (risk_vs_activity self'))
         = (100.0, CRITICAL) \<and>
       (current_level (sector_intelligence self'), status (sector_intelligence self'))
         = (114.3, CRITICAL) \<and>
       us_economic_backdrop self' = us_economic_backdrop self"
    by blast
qed

theorem constant_frameworks_witness:
  "max_duration_of Map.empty \<noteq> 0 \<and>
   (\<exists>r self'.
     calculate_master_divergence_index ''2025-06-13T17:30:00'' init_frameworks Map.empty
       = (Inr r, self') \<and>
     level_status r ''economic_assessment'' = Some (75.0, ''CRITICAL'') \<and>
     level_status r ''credit_vs_fundamentals'' = Some (126.0, ''CRITICAL'') \<and>
     level_status r ''risk_vs_activity'' = Some (100.0, ''CRITICAL'') \<and>
     level_status r ''sector_intelligence'' = Some (114.3, ''CRITICAL'') \<and>
     level_status r ''us_economic_backdrop'' = Some (50.0, ''WARNING'')) \<and>
   max_duration_of [''nifty_mrn'' \<mapsto> [''max_duration'' \<mapsto> 0]] = 0 \<and>
   (\<exists>self'.
     calculate_master_divergence_index ''2025-06-13T17:30:00'' init_frameworks
       [''nifty_mrn'' \<mapsto> [''max_duration'' \<mapsto> 0]] = (Inl ZeroDivisionError, self') \<and>
     status (economic_assessment self') = CRITICAL \<and>
     status (credit_vs_fundamentals self') = CRITICAL \<and>
     status (risk_vs_activity self') = CRITICAL \<and>
     status (sector_intelligence self') = CRITICAL \<and>
     us_economic_backdrop self' = us_economic_backdrop init_frameworks)"
proof -
  have m: "max_duration_of Map.empty \<noteq> 0"
    by (simp add: default_snapshot)
  from constant_frameworks [of Map.empty "''2025-06-13T17:30:00''" init_frameworks] m
  have a: "\<exists>r self'.
     calculate_master_divergence_index ''2025-06-13T17:30:00'' init_frameworks Map.empty
       = (Inr r, self') \<and>
     level_status r ''economic_assessment'' = Some (75.0, ''CRITICAL'') \<and>
     level_status r ''credit_vs_fundamentals'' = Some (126.0, ''CRITICAL'') \<and>
     level_status r ''risk_vs_activity'' = Some (100.0, ''CRITICAL'') \<and>
     level_status r ''sector_intelligence'' = Some (114.3, ''CRITICAL'') \<and>
     level_status r ''us_economic_backdrop'' = Some (50.0, ''WARNING'')"
    by blast
  from constant_frameworks [of "[''nifty_mrn'' \<mapsto> [''max_duration'' \<mapsto> 0]]"
      "''2025-06-13T17:30:00''" init_frameworks] zero_snapshot
  have b: "\<exists>self'.
     calculate_master_divergence_index ''2025-06-13T17:30:00'' init_frameworks
       [''nifty_mrn'' \<mapsto> [''max_duration'' \<mapsto> 0]] = (Inl ZeroDivisionError, self') \<and>
     status (economic_assessment self') = CRITICAL \<and>
     status (credit_vs_fundamentals self') = CRITICAL \<and>
     status (risk_vs_activity self') = CRITICAL \<and>
     status (sector_intelligence self') = CRITICAL \<and>
     us_economic_backdrop self' = us_economic_backdrop init_frameworks"
    by auto
  from m a zero_snapshot b show ?thesis by blast
qed

subsection \<open>Opportunities\<close>

text \<open>
  Claim C5. The list of opportunities is, in this order, the Global-Local Arbitrage
  record (present exactly when the \<^verbatim>\<open>global_vs_local\<close> level is above 1000, with that level
  as magnitude) followed by the Multi-Framework Arbitrage record (present exactly when
  \<^verbatim>\<open>critical_frameworks\<close> is at least 2, with \<open>master_divergence_index * 100\<close> as magnitude),
  and nothing else.
\<close>

theorem opportunities_in_order:
  assumes "max_duration_of raw \<noteq> 0"
  shows "\<exists>r self'.
     calculate_master_divergence_index now self raw = (Inr r, self') \<and>
     opportunities r =
       (if current_level (global_vs_local self') > 1000
        then [\<lparr> opp_type = ''Global-Local Arbitrage'',
                strategy = ''Long international, short local'',
                magnitude = current_level (global_vs_local self'),
                timeline = ''2-8 weeks'', confidence = ''Very High'' \<rparr>]
        else [])
       @ (if critical_frameworks r \<ge> 2
          then [\<lparr> opp_type = ''Multi-Framework Arbitrage'',
                  strategy = ''Position across contradictions'',
                  magnitude = master_divergence_index r * 100,
                  timeline = ''1-4 weeks'', confidence = ''High'' \<rparr>]
          else []) \<and>
     level_status r ''global_vs_local'' =
       Some (current_level (global_vs_local self'),
             status_value (status (global_vs_local self')))"
proof -
  from calc_returns [OF assms, of now self] obtain r self' where
    c: "calculate_master_divergence_index now self raw = (Inr r, self')"
    and f: "frameworks r = map (\<lambda>(k, fw). (k, framework_view fw)) (items self')"
    and o: "opportunities r =
       derive_opportunities (current_level (global_vs_local self'))
         (critical_frameworks r) (master_divergence_index r)"
    by blast
  have l: "level_status r ''global_vs_local'' =
       Some (current_level (global_vs_local self'),
             status_value (status (global_vs_local self')))"
    by (simp add: level_status_def f items_def framework_view_def)
  from c o l show ?thesis
    unfolding derive_opportunities_def by blast
qed

theorem opportunities_in_order_witness:
  "max_duration_of Map.empty \<noteq> 0 \<and>
   (\<exists>r self'.
     calculate_master_divergence_index ''2025-06-13T17:30:00'' init_frameworks Map.empty
       = (Inr r, self') \<and>
     map opp_type (opportunities r) = [''Global-Local Arbitrage'', ''Multi-Framework Arbitrage''] \<and>
     map magnitude (opportunities r) = [19700 / 3, 13079 / 50])"
proof -
  have m: "max_duration_of Map.empty \<noteq> 0"
    by (simp add: default_snapshot)
  from default_pass [of "''2025-06-13T17:30:00''"] obtain r0 s0 where
    c0: "calculate_master_divergence_index ''2025-06-13T17:30:00'' init_frameworks Map.empty
           = (Inr r0, s0)"
    and gl: "current_level (global_vs_local s0) = 19700 / 3"
    and i: "master_divergence_index r0 = 13079 / 5000"
    and k: "critical_frameworks r0 = 5"
    by (auto simp add: values_of_def)
  from opportunities_in_order [OF m, of "''2025-06-13T17:30:00''" init_frameworks]
  show ?thesis using m c0 gl i k by auto
qed

subsection \<open>The master divergence index\<close>

text \<open>
  Claim C4. The master divergence index of a result is the sum, over exactly the
  frameworks of the table whose level is strictly above their threshold, of
  \<open>min (level / 100) 10 * weight\<close>; a framework at or below its threshold is not in the
  sum. The levels and thresholds of the table are the ones the result reports.
\<close>

theorem master_index_is_weighted_sum:
  assumes "max_duration_of raw \<noteq> 0"
  shows "\<exists>r self'.
     calculate_master_divergence_index now self raw = (Inr r, self') \<and>
     frameworks r = map (\<lambda>(k, fw). (k, framework_view fw)) (items self') \<and>
     master_divergence_index r =
       (\<Sum>fw\<leftarrow>filter (\<lambda>fw. current_level fw > threshold fw) (values_of self').
          min (current_level fw / 100) 10 * weight fw)"
proof -
  from calc_returns [OF assms, of now self] obtain r self' where
    c: "calculate_master_divergence_index now self raw = (Inr r, self')"
    and f: "frameworks r = map (\<lambda>(k, fw). (k, framework_view fw)) (items self')"
    and i: "master_divergence_index r = fst (score_loop (values_of self') (0, 0))"
    by blast
  have "master_divergence_index r =
       (\<Sum>fw\<leftarrow>filter (\<lambda>fw. current_level fw > threshold fw) (values_of self').
          min (current_level fw / 100) 10 * weight fw)"
    by (simp add: i score_loop_total)
  with c f show ?thesis by blast
qed

theorem master_index_is_weighted_sum_witness:
  "max_duration_of Map.empty \<noteq> 0 \<and>
   (\<exists>r self'.
     calculate_master_divergence_index ''2025-06-13T17:30:00'' init_frameworks Map.empty
       = (Inr r, self') \<and>
     master_divergence_index r =
       (\<Sum>fw\<leftarrow>filter (\<lambda>fw. current_level fw > threshold fw) (values_of self').
          min (current_level fw / 100) 10 * weight fw) \<and>
     master_divergence_index r = 13079 / 5000)"
proof -
  have m: "max_duration_of Map.empty \<noteq> 0"
    by (simp add: default_snapshot)
  from default_pass [of "''2025-06-13T17:30:00''"] obtain r0 s0 where
    c0: "calculate_master_divergence_index ''2025-06-13T17:30:00'' init_frameworks Map.empty
           = (Inr r0, s0)"
    and i: "master_divergence_index r0 = 13079 / 5000"
    by blast
  from master_index_is_weighted_sum [OF m, of "''2025-06-13T17:30:00''" init_frameworks]
  show ?thesis using m c0 i by auto
qed

subsection \<open>What every completed pass reports\<close>

text \<open>
  Claim C10. Whenever the pass completes, the four constant frameworks are CRITICAL, so
  at least four frameworks are, \<^verbatim>\<open>critical_frameworks\<close> is at least 4, \<^verbatim>\<open>system_status\<close> is
  \<^verbatim>\<open>"CRITICAL"\<close>, and the opportunities contain a Multi-Framework Arbitrage record: the list
  is never empty.
\<close>

theorem always_critical:
  assumes "max_duration_of raw \<noteq> 0"
  shows "\<exists>r self'.
     calculate_master_divergence_index now self raw = (Inr r, self') \<and>
     level_status r ''economic_assessment'' = Some (75.0, ''CRITICAL'') \<and>
     level_status r ''credit_vs_fundamentals'' = Some (126.0, ''CRITICAL'') \<and>
     level_status r ''risk_vs_activity'' = Some (100.0, ''CRITICAL'') \<and>
     level_status r ''sector_intelligence'' = Some (114.3, ''CRITICAL'') \<and>
     4 \<le> length (filter (\<lambda>kv. fv_status (snd kv) = ''CRITICAL'') (frameworks r)) \<and>
     4 \<le> critical_frameworks r \<and>
     system_status r = ''CRITICAL'' \<and>
     (\<exists>opp \<in> set (opportunities r). opp_type opp = ''Multi-Framework Arbitrage'') \<and>
     opportunities r \<noteq> []"
proof -
  from calc_returns [OF assms, of now self] obtain r self' where
    c: "calculate_master_divergence_index now self raw = (Inr r, self')"
    and s: "self' = score_frameworks_6_to_7 (mrn_duration_of raw / max_duration_of raw * 100)
               (score_frameworks_1_to_5
                  (divergence_pct_of (global_sentiment_of raw) (local_sentiment_of raw)) self)"
    and f: "frameworks r = map (\<lambda>(k, fw). (k, framework_view fw)) (items self')"
    and n: "critical_frameworks r = snd (score_loop (values_of self') (0, 0))"
    and st: "system_status r =
       (if critical_frameworks r \<ge> 3 then ''CRITICAL''
        else if critical_frameworks r \<ge> 1 then ''WARNING'' else ''NORMAL'')"
    and o: "opportunities r =
       derive_opportunities (current_level (global_vs_local self'))
         (critical_frameworks r) (master_divergence_index r)"
    by blast
  have t: "(current_level (economic_assessment self'), status (economic_assessment self'))
       = (75.0, CRITICAL)"
    "(current_level (credit_vs_fundamentals self'), status (credit_vs_fundamentals self'))
       = (126.0, CRITICAL)"
    "(current_level (risk_vs_activity self'), status (risk_vs_activity self'))
       = (100.0, CRITICAL)"
    "(current_level (sector_intelligence self'), status (sector_intelligence self'))
       = (114.3, CRITICAL)"
    by (simp_all add: s frameworks_1_to_5_fields frameworks_6_to_7_fields)
  have v: "level_status r ''economic_assessment'' = Some (75.0, ''CRITICAL'')"
    "level_status r ''credit_vs_fundamentals'' = Some (126.0, ''CRITICAL'')"
    "level_status r ''risk_vs_activity'' = Some (100.0, ''CRITICAL'')"
    "level_status r ''sector_intelligence'' = Some (114.3, ''CRITICAL'')"
    using t by (simp_all add: level_status_def f items_def framework_view_def)
  have four: "status (economic_assessment self') = CRITICAL"
    "status (credit_vs_fundamentals self') = CRITICAL"
    "status (risk_vs_activity self') = CRITICAL"
    "status (sector_intelligence self') = CRITICAL"
    using t by simp_all
  have n': "critical_frameworks r = length (filter (\<lambda>fw. status fw = CRITICAL) (values_of self'))"
    by (simp add: n score_loop_count)
  have k: "4 \<le> critical_frameworks r"
    using four_critical [OF four] n' by simp
  have kv: "4 \<le> length (filter (\<lambda>kv. fv_status (snd kv) = ''CRITICAL'') (frameworks r))"
    using k n' f critical_views [of self'] by simp
  have sc: "system_status r = ''CRITICAL''"
    using st k by simp
  let ?opp = "\<lparr> opp_type = ''Multi-Framework Arbitrage'',
          strategy = ''Position across contradictions'',
          magnitude = master_divergence_index r * 100,
          timeline = ''1-4 weeks'', confidence = ''High'' \<rparr>"
  have mem: "?opp \<in> set (opportunities r)"
    using k by (simp add: o derive_opportunities_def)
  have ty: "opp_type ?opp = ''Multi-Framework Arbitrage''" by simp
  have ex: "\<exists>opp \<in> set (opportunities r). opp_type opp = ''Multi-Framework Arbitrage''"
    using mem ty by blast
  have ne: "opportunities r \<noteq> []"
    using mem by auto
  from c v kv k sc ex ne show ?thesis by blast
qed

theorem always_critical_witness:
  "max_duration_of Map.empty \<noteq> 0 \<and>
   (\<exists>r self'.
     calculate_master_divergence_index ''2025-06-13T17:30:00'' init_frameworks Map.empty
       = (Inr r, self') \<and>
     critical_frameworks r = 5 \<and>
     system_status r = ''CRITICAL'' \<and>
     (\<exists>opp \<in> set (opportunities r). opp_type opp = ''Multi-Framework Arbitrage''))"
proof -
  have m: "max_duration_of Map.empty \<noteq> 0"
    by (simp add: default_snapshot)
  from default_pass [of "''2025-06-13T17:30:00''"] obtain r0 s0 where
    c0: "calculate_master_divergence_index ''2025-06-13T17:30:00'' init_frameworks Map.empty
           = (Inr r0, s0)"
    and k: "critical_frameworks r0 = 5"
    by blast
  from always_critical [OF m, of "''2025-06-13T17:30:00''" init_frameworks]
  show ?thesis using m c0 k by auto
qed

subsection \<open>Critical count and system status\<close>

text \<open>
  Claim C3. In every scoring pass that returns, \<^verbatim>\<open>critical_frameworks\<close> is the number of
  frameworks whose status is CRITICAL, counted on the reported frameworks and on the
  engine's table alike, and \<^verbatim>\<open>system_status\<close> is \<^verbatim>\<open>"CRITICAL"\<close> if that number is at least 3,
  \<^verbatim>\<open>"WARNING"\<close> if it is at least 1 and \<^verbatim>\<open>"NORMAL"\<close> otherwise.
\<close>

theorem critical_count_and_system_status:
  assumes "max_duration_of raw \<noteq> 0"
  shows "\<exists>r self'.
     calculate_master_divergence_index now self raw = (Inr r, self') \<and>
     critical_frameworks r =
       length (filter (\<lambda>kv. fv_status (snd kv) = ''CRITICAL'') (frameworks r)) \<and>
     critical_frameworks r =
       length (filter (\<lambda>fw. status fw = CRITICAL) (values_of self')) \<and>
     system_status r =
       (if critical_frameworks r \<ge> 3 then ''CRITICAL''
        else if critical_frameworks r \<ge> 1 then ''WARNING'' else ''NORMAL'')"
proof -
  from calc_returns [OF assms, of now self] obtain r self' where
    c: "calculate_master_divergence_index now self raw = (Inr r, self')"
    and f: "frameworks r = map (\<lambda>(k, fw). (k, framework_view fw)) (items self')"
    and n: "critical_frameworks r = snd (score_loop (values_of self') (0, 0))"
    and st: "system_status r =
       (if critical_frameworks r \<ge> 3 then ''CRITICAL''
        else if critical_frameworks r \<ge> 1 then ''WARNING'' else ''NORMAL'')"
    by blast
  have n': "critical_frameworks r = length (filter (\<lambda>fw. status fw = CRITICAL) (values_of self'))"
    by (simp add: n score_loop_count)
  have kv: "critical_frameworks r =
       length (filter (\<lambda>kv. fv_status (snd kv) = ''CRITICAL'') (frameworks r))"
    using n' f critical_views [of self'] by simp
  from c kv n' st show ?thesis by blast
qed

theorem critical_count_and_system_status_witness:
  "max_duration_of Map.empty \<noteq> 0 \<and>
   (\<exists>r self'.
     calculate_master_divergence_index ''2025-06-13T17:30:00'' init_frameworks Map.empty
       = (Inr r, self') \<and>
     critical_frameworks r = 5 \<and>
     length (filter (\<lambda>kv. fv_status (snd kv) = ''CRITICAL'') (frameworks r)) = 5 \<and>
     system_status r = ''CRITICAL'')"
proof -
  have m: "max_duration_of Map.empty \<noteq> 0"
    by (simp add: default_snapshot)
  from default_pass [of "''2025-06-13T17:30:00''"] obtain r0 s0 where
    c0: "calculate_master_divergence_index ''2025-06-13T17:30:00'' init_frameworks Map.empty
           = (Inr r0, s0)"
    and k: "critical_frameworks r0 = 5"
    by blast
  from critical_count_and_system_status [OF m, of "''2025-06-13T17:30:00''" init_frameworks]
  show ?thesis using m c0 k by auto
qed

subsection \<open>Monotonicity of the master divergence index\<close>

text \<open>
  Claim C9. Take any framework table carrying the weights that \<^verbatim>\<open>__init__\<close> sets (no call
  changes them), and replace the level of its \<open>i\<close>-th framework, everything else fixed.
  Over the levels strictly above that framework's threshold, the total score computed by
  the loop of lines 596-599 is non-decreasing in the level.
\<close>

theorem master_index_monotone:
  assumes "map weight fws = map weight (values_of init_frameworks)"
    and "i < length fws" and "threshold (fws ! i) < l" and "l \<le> l'"
  shows "fst (score_loop (fws[i := (fws ! i)\<lparr>current_level := l\<rparr>]) (0, 0))
       \<le> fst (score_loop (fws[i := (fws ! i)\<lparr>current_level := l'\<rparr>]) (0, 0))"
proof -
  have "fws ! i \<in> set fws"
    using assms(2) by (rule nth_mem)
  then have "weight (fws ! i) \<in> set (map weight fws)"
    by simp
  then have "weight (fws ! i) \<in> set (map weight (values_of init_frameworks))"
    by (simp only: assms(1))
  with init_weights have w: "0 \<le> weight (fws ! i)"
    by fastforce
  show ?thesis
    by (rule score_loop_update_mono [OF assms(2) w assms(3) assms(4)])
qed

theorem master_index_monotone_witness:
  "map weight (values_of init_frameworks) = map weight (values_of init_frameworks) \<and>
   0 < length (values_of init_frameworks) \<and>
   threshold (values_of init_frameworks ! 0) < 150 \<and> (150::real) \<le> 1200 \<and>
   fst (score_loop ((values_of init_frameworks)
          [0 := (values_of init_frameworks ! 0)\<lparr>current_level := 150\<rparr>]) (0, 0))
     \<le> fst (score_loop ((values_of init_frameworks)
          [0 := (values_of init_frameworks ! 0)\<lparr>current_level := 1200\<rparr>]) (0, 0)) \<and>
   fst (score_loop ((values_of init_frameworks)
          [0 := (values_of init_frameworks ! 0)\<lparr>current_level := 150\<rparr>]) (0, 0)) = 3 / 10 \<and>
   fst (score_loop ((values_of init_frameworks)
          [0 := (values_of init_frameworks ! 0)\<lparr>current_level := 1200\<rparr>]) (0, 0)) = 2"
proof -
  have h: "0 < length (values_of init_frameworks)"
    "threshold (values_of init_frameworks ! 0) < 150"
    by (simp_all add: values_of_def init_frameworks_def)
  have v: "fst (score_loop ((values_of init_frameworks)
          [0 := (values_of init_frameworks ! 0)\<lparr>current_level := 150\<rparr>]) (0, 0)) = 3 / 10"
    "fst (score_loop ((values_of init_frameworks)
          [0 := (values_of init_frameworks ! 0)\<lparr>current_level := 1200\<rparr>]) (0, 0)) = 2"
    by (simp_all add: values_of_def init_frameworks_def)
  from master_index_monotone [OF refl h, of 1200]
  show ?thesis using h v by simp
qed

subsection \<open>A zero \<^verbatim>\<open>max_duration\<close>\<close>

text \<open>
  Claim C1 says that a pass with \<^verbatim>\<open>max_duration\<close> equal to 0 raises a \<^verbatim>\<open>DivisionGuard\<close> error
  and changes no framework state visible to the caller. The source defines no such
  exception and tests nothing before dividing: on the freshly constructed engine, with
  \<^verbatim>\<open>max_duration = 0\<close>, the call raises Python's \<^verbatim>\<open>ZeroDivisionError\<close> and leaves a table
  that differs from the one it started with (\<^verbatim>\<open>economic_assessment\<close> went from NORMAL
  to CRITICAL).
\<close>

theorem division_guard_counterexample:
  "fst (calculate_master_divergence_index ''2025-06-13T17:30:00'' init_frameworks
          [''nifty_mrn'' \<mapsto> [''max_duration'' \<mapsto> 0]]) = Inl ZeroDivisionError \<and>
   snd (calculate_master_divergence_index ''2025-06-13T17:30:00'' init_frameworks
          [''nifty_mrn'' \<mapsto> [''max_duration'' \<mapsto> 0]]) \<noteq> init_frameworks \<and>
   status (economic_assessment init_frameworks) = NORMAL \<and>
   status (economic_assessment
     (snd (calculate_master_divergence_index ''2025-06-13T17:30:00'' init_frameworks
          [''nifty_mrn'' \<mapsto> [''max_duration'' \<mapsto> 0]]))) = CRITICAL"
proof -
  let ?raw = "[''nifty_mrn'' \<mapsto> [''max_duration'' \<mapsto> 0]] :: raw_data"
  let ?c = "calculate_master_divergence_index ''2025-06-13T17:30:00'' init_frameworks ?raw"
  note r = calc_raises [OF zero_snapshot, of "''2025-06-13T17:30:00''" init_frameworks]
  have a: "fst ?c = Inl ZeroDivisionError"
    by (simp add: r)
  have b: "status (economic_assessment (snd ?c)) = CRITICAL"
    by (simp add: r frameworks_1_to_5_fields)
  have i: "status (economic_assessment init_frameworks) = NORMAL"
    by (simp add: init_frameworks_def)
  have n: "snd ?c \<noteq> init_frameworks"
  proof
    assume "snd ?c = init_frameworks"
    with b i show False by simp
  qed
  from a n i b show ?thesis by blast
qed

text \<open>
  Claim C1, as the code has it. With \<^verbatim>\<open>max_duration\<close> equal to 0 the call raises
  \<^verbatim>\<open>ZeroDivisionError\<close> and returns no result. By then the level and status of frameworks
  1 to 5 have been overwritten in the engine's table; \<^verbatim>\<open>quantitative_regime\<close> and
  \<^verbatim>\<open>us_economic_backdrop\<close> are as before the call, and so are the name, threshold, weight
  and implication of every framework.
\<close>

theorem zero_max_duration_raises:
  assumes "max_duration_of raw = 0"
  shows "\<exists>self'.
     calculate_master_divergence_index now self raw = (Inl ZeroDivisionError, self') \<and>
     current_level (global_vs_local self') =
       divergence_pct_of (global_sentiment_of raw) (local_sentiment_of raw) \<and>
     status (global_vs_local self') =
       (if current_level (global_vs_local self') > 1000 then CRITICAL
        else if current_level (global_vs_local self') > 100 then WARNING else NORMAL) \<and>
     (current_level (economic_assessment self'), status (economic_assessment self'))
       = (75.0, CRITICAL) \<and>
     (current_level (credit_vs_fundamentals self'), status (credit_vs_fundamentals self'))
       = (126.0, CRITICAL) \<and>
     (current_level (risk_vs_activity self'), status (risk_vs_activity self'))
       = (100.0, CRITICAL) \<and>
     (current_level (sector_intelligence self'), status (sector_intelligence self'))
       = (114.3, CRITICAL) \<and>
     quantitative_regime self' = quantitative_regime self \<and>
     us_economic_backdrop self' = us_economic_backdrop self \<and>
     map (\<lambda>fw. (name fw, threshold fw, weight fw, implication fw)) (values_of self') =
       map (\<lambda>fw. (name fw, threshold fw, weight fw, implication fw)) (values_of self)"
proof -
  let ?s = "score_frameworks_1_to_5
       (divergence_pct_of (global_sentiment_of raw) (local_sentiment_of raw)) self"
  have c: "calculate_master_divergence_index now self raw = (Inl ZeroDivisionError, ?s)"
    by (rule calc_raises [OF assms])
  have g: "current_level (global_vs_local ?s) =
       divergence_pct_of (global_sentiment_of raw) (local_sentiment_of raw)"
    "status (global_vs_local ?s) =
       (if current_level (global_vs_local ?s) > 1000 then CRITICAL
        else if current_level (global_vs_local ?s) > 100 then WARNING else NORMAL)"
    by (simp_all add: frameworks_1_to_5_fields)
  have t: "(current_level (economic_assessment ?s), status (economic_assessment ?s))
       = (75.0, CRITICAL)"
    "(current_level (credit_vs_fundamentals ?s), status (credit_vs_fundamentals ?s))
       = (126.0, CRITICAL)"
    "(current_level (risk_vs_activity ?s), status (risk_vs_activity ?s))
       = (100.0, CRITICAL)"
    "(current_level (sector_intelligence ?s), status (sector_intelligence ?s))
       = (114.3, CRITICAL)"
    by (simp_all add: frameworks_1_to_5_fields)
  have u: "quantitative_regime ?s = quantitative_regime self"
    "us_economic_backdrop ?s = us_economic_backdrop self"
    by (simp_all add: frameworks_1_to_5_fields)
  have k: "map (\<lambda>fw. (name fw, threshold fw, weight fw, implication fw)) (values_of ?s) =
       map (\<lambda>fw. (name fw, threshold fw, weight fw, implication fw)) (values_of self)"
    by (simp add: values_of_def frameworks_1_to_5_fields)
  from c g t u k show ?thesis by blast
qed

theorem zero_max_duration_raises_witness:
  "max_duration_of [''nifty_mrn'' \<mapsto> [''max_duration'' \<mapsto> 0]] = 0 \<and>
   (\<exists>self'.
     calculate_master_divergence_index ''2025-06-13T17:30:00'' init_frameworks
       [''nifty_mrn'' \<mapsto> [''max_duration'' \<mapsto> 0]] = (Inl ZeroDivisionError, self') \<and>
     current_level (global_vs_local self') = 19700 / 3 \<and>
     status (global_vs_local self') = CRITICAL \<and>
     status (sector_intelligence self') = CRITICAL \<and>
     quantitative_regime self' = quantitative_regime init_frameworks \<and>
     us_economic_backdrop self' = us_economic_backdrop init_frameworks)"
proof -
  let ?raw = "[''nifty_mrn'' \<mapsto> [''max_duration'' \<mapsto> 0]] :: raw_data"
  have s: "global_sentiment_of ?raw = 6" "local_sentiment_of ?raw = 9 / 100"
    by (simp_all add: global_sentiment_of_def local_sentiment_of_def get2_def)
  have d: "divergence_pct_of 6 (9 / 100) = 19700 / 3"
    by (simp add: divergence_pct_of_def)
  from zero_max_duration_raises [OF zero_snapshot, of "''2025-06-13T17:30:00''" init_frameworks]
  show ?thesis using zero_snapshot by (auto simp add: s d)
qed

subsection \<open>Calling the scorer twice\<close>

text \<open>
  Claim C8 says that two invocations with identical snapshots yield identical results and
  that the scorer stamps no timestamp of its own. The method writes
  \<^verbatim>\<open>datetime.now().isoformat()\<close> into the result (line 625): calling it on the default
  snapshot, and one second later again on the same engine with the same snapshot, gives
  two different results.
\<close>

theorem timestamp_counterexample:
  "fst (calculate_master_divergence_index ''2025-06-13T17:30:01''
          (snd (calculate_master_divergence_index ''2025-06-13T17:30:00'' init_frameworks Map.empty))
          Map.empty)
   \<noteq> fst (calculate_master_divergence_index ''2025-06-13T17:30:00'' init_frameworks Map.empty)"
proof -
  have m: "max_duration_of Map.empty \<noteq> 0"
    by (simp add: default_snapshot)
  let ?first = "calculate_master_divergence_index ''2025-06-13T17:30:00'' init_frameworks Map.empty"
  from calc_returns [OF m, of "''2025-06-13T17:30:00''" init_frameworks] obtain r1 s1 where
    c1: "?first = (Inr r1, s1)" and t1: "timestamp r1 = ''2025-06-13T17:30:00''"
    by blast
  from calc_returns [OF m, of "''2025-06-13T17:30:01''" s1] obtain r2 s2 where
    c2: "calculate_master_divergence_index ''2025-06-13T17:30:01'' s1 Map.empty = (Inr r2, s2)"
    and t2: "timestamp r2 = ''2025-06-13T17:30:01''"
    by blast
  have "r2 \<noteq> r1"
  proof
    assume "r2 = r1"
    then have "timestamp r2 = timestamp r1" by simp
    with t1 t2 show False by simp
  qed
  with c1 c2 show ?thesis by simp
qed

text \<open>
  Claim C8, as the code has it. The result of a second invocation with an identical
  snapshot, on the engine as the first invocation left it, is the result of the first
  with its \<^verbatim>\<open>timestamp\<close> replaced by the second reading of the clock (or the same
  exception), and the second invocation leaves the table as the first left it. Apart
  from the timestamp that the scorer stamps itself, nothing in the result depends on
  time or on earlier calls.
\<close>

theorem second_call_differs_only_in_timestamp:
  "fst (calculate_master_divergence_index now2
          (snd (calculate_master_divergence_index now1 self raw)) raw)
     = map_sum id (\<lambda>r. r\<lparr>timestamp := now2\<rparr>)
         (fst (calculate_master_divergence_index now1 self raw)) \<and>
   snd (calculate_master_divergence_index now2
          (snd (calculate_master_divergence_index now1 self raw)) raw)
     = snd (calculate_master_divergence_index now1 self raw)"
proof (cases "max_duration_of raw = 0")
  case True
  then show ?thesis
    by (simp add: calc_raises rescoring_1_to_5)
next
  case False
  then show ?thesis
    by (simp add: calculate_master_divergence_index_def Let_def rescoring)
qed

end
